theory Spec2Isabelle
  imports Complex_Main "HOL-Library.AList"
begin

section \<open>Strings\<close>

text \<open>
  Python strings are modelled as lists of 8-bit characters. \<open>strip\<close> and \<open>lower\<close> are
  \<^verbatim>\<open>str.strip\<close> and \<^verbatim>\<open>str.lower\<close> on ASCII text: the white space of \<^verbatim>\<open>str.isspace\<close> below
  code point 128 and the letters A to Z. Python also strips the white space and lowers the
  letters beyond ASCII, which this model does not; a statement that depends on what
  \<open>strip\<close> and \<open>lower\<close> return is therefore made for ASCII text (\<open>ascii_text\<close>).
\<close>

definition isspace :: "char \<Rightarrow> bool" where
  "isspace c = (let n = (of_char c :: nat) in (9 \<le> n \<and> n \<le> 13) \<or> (28 \<le> n \<and> n \<le> 32))"

definition strip :: "string \<Rightarrow> string" where
  "strip s = rev (dropWhile isspace (rev (dropWhile isspace s)))"

definition lower_char :: "char \<Rightarrow> char" where
  "lower_char c = (let n = (of_char c :: nat) in
                     if 65 \<le> n \<and> n \<le> 90 then char_of (n + 32) else c)"

definition lower :: "string \<Rightarrow> string" where
  "lower s = map lower_char s"

definition ascii_text :: "string \<Rightarrow> bool" where
  "ascii_text s = list_all (\<lambda>c. (of_char c :: nat) < 128) s"

text \<open>Every present cell of a stringified series is ASCII text.\<close>

definition ascii_cells :: "string option list \<Rightarrow> bool" where
  "ascii_cells xs = list_all (\<lambda>v. case v of None \<Rightarrow> True | Some s \<Rightarrow> ascii_text s) xs"

section \<open>Data model: cells, columns, data frames\<close>

text \<open>
  A pandas Series is a list of cells together with its dtype; \<open>None\<close> is the missing
  sentinel (NaN, NA, NaT). An object column holds arbitrary Python objects, the other
  dtypes hold cells of one kind. Floating-point numbers are idealised as rationals.

  \<open>NumCol\<close> is a series of numpy dtype float64 or int64, as \<^verbatim>\<open>read_csv\<close> makes it from
  a column of numbers. pandas has nullable numeric dtypes as well (Int64, Float64), which
  \<^verbatim>\<open>pd.to_numeric\<close> returns for a series of the string dtype; an Int64 series refuses a
  value with a fractional part (\<open>TypeError\<close>) where a float64 series takes it. The model
  has no nullable numeric dtype and no such refusal: the statements below about filling,
  capping and reconciling are made for columns that are numeric-typed on input.
\<close>

datatype cell = Text string | Number rat | Boolean bool | Timestamp int

datatype column =
    ObjCol "cell option list"
  | StrCol "string option list"
  | NumCol "rat option list"
  | BoolCol "bool list"
  | BooleanCol "bool option list"
  | DateCol "int option list"

record dataframe =
  index_len :: nat
  columns :: "(string \<times> column) list"

text \<open>
  The conversions that pandas and Python perform on values (printing a number or a time
  stamp, parsing a number or a date, rounding a float to two decimals) are not code of this
  repository; they are parameters of the model. \<open>round2\<close> stands for \<^verbatim>\<open>round(x, 2)\<close> and
  \<^verbatim>\<open>.round(2)\<close>: the code rounds a binary double, so at a decimal tie the result depends on
  the double and not on the exact value; a theorem that needs the rounding assumes only
  \<open>rounds_to_hundredths\<close>.
\<close>

record pandas =
  str_number :: "rat \<Rightarrow> string"
  str_timestamp :: "int \<Rightarrow> string"
  to_numeric_text :: "string \<Rightarrow> rat option"
  to_numeric_object :: "cell \<Rightarrow> rat option"
  to_numeric_timestamp :: "int option \<Rightarrow> rat option"
  to_datetime_series :: "column \<Rightarrow> int option list"
  round2 :: "rat \<Rightarrow> rat"

text \<open>A rounding to two decimals: the result has two decimals and no value with two decimals
  is nearer to the argument. At a tie (an argument half-way between two such values) it may
  be either neighbour.\<close>

definition rounds_to_hundredths :: "(rat \<Rightarrow> rat) \<Rightarrow> bool" where
  "rounds_to_hundredths r =
     (\<forall>x. (\<exists>k :: int. r x = of_int k / 100) \<and> \<bar>r x - x\<bar> \<le> 1 / 200)"

definition column_names :: "dataframe \<Rightarrow> string list" where
  "column_names df = map fst (columns df)"

definition get_col :: "dataframe \<Rightarrow> string \<Rightarrow> column option" where
  "get_col df c = map_of (columns df) c"

definition set_col :: "dataframe \<Rightarrow> string \<Rightarrow> column \<Rightarrow> dataframe" where
  "set_col df c col = df\<lparr>columns := AList.update c col (columns df)\<rparr>"

definition str_bool :: "bool \<Rightarrow> string" where
  "str_bool b = (if b then ''True'' else ''False'')"

fun str_cell :: "pandas \<Rightarrow> cell \<Rightarrow> string" where
  "str_cell L (Text s) = s"
| "str_cell L (Number r) = str_number L r"
| "str_cell L (Boolean b) = str_bool b"
| "str_cell L (Timestamp t) = str_timestamp L t"

text \<open>\<^verbatim>\<open>series.astype("string")\<close>: every present cell becomes its \<^verbatim>\<open>str()\<close>.\<close>

fun astype_string :: "pandas \<Rightarrow> column \<Rightarrow> string option list" where
  "astype_string L (ObjCol xs) = map (map_option (str_cell L)) xs"
| "astype_string L (StrCol xs) = xs"
| "astype_string L (NumCol xs) = map (map_option (str_number L)) xs"
| "astype_string L (BoolCol xs) = map (\<lambda>b. Some (str_bool b)) xs"
| "astype_string L (BooleanCol xs) = map (map_option str_bool) xs"
| "astype_string L (DateCol xs) = map (map_option (str_timestamp L)) xs"

text \<open>\<^verbatim>\<open>Series.replace({m: pd.NA for m in ms})\<close> on one cell: a whole-value match.\<close>

definition replace_na :: "string list \<Rightarrow> string option \<Rightarrow> string option" where
  "replace_na ms v = (case v of None \<Rightarrow> None
                      | Some s \<Rightarrow> if s \<in> set ms then None else Some s)"

definition is_object_or_string :: "column \<Rightarrow> bool" where
  "is_object_or_string col = (case col of ObjCol _ \<Rightarrow> True | StrCol _ \<Rightarrow> True | _ \<Rightarrow> False)"

section \<open>profiler.py: missing-token normalisation\<close>

definition MISSING_MARKERS :: "string list" where
  "MISSING_MARKERS = ['''', ''?'', ''na'', ''n/a'', ''null'', ''none'', ''nan'']"

text \<open>Lines 27-35 of \<^verbatim>\<open>_normalize_missing_tokens\<close> on one cell: strip, lower, replace.\<close>

definition normalize_token :: "string option \<Rightarrow> string option" where
  "normalize_token v = replace_na MISSING_MARKERS (map_option (lower \<circ> strip) v)"

text \<open>
  The loop \<^verbatim>\<open>for c in obj_cols: ... df[c] = s\<close>; \<open>obj_cols\<close> is computed once, before the
  loop. The \<open>None\<close> branch of the lookup cannot be taken (every name of \<open>obj_cols\<close> is a
  column) and is there only to keep the function total.
\<close>

definition normalize_missing_tokens :: "pandas \<Rightarrow> dataframe \<Rightarrow> dataframe" where
  "normalize_missing_tokens L df =
     (let obj_cols = map fst (filter (\<lambda>(c, col). is_object_or_string col) (columns df))
      in fold (\<lambda>c d. case get_col d c of
                         None \<Rightarrow> d
                       | Some col \<Rightarrow> set_col d c (StrCol (map normalize_token (astype_string L col))))
              obj_cols df)"

section \<open>cleaner.py: the string normalisation stage of clean\_dataset\<close>

definition CLEANER_MARKERS :: "string list" where
  "CLEANER_MARKERS = ['''', ''NA'', ''N/A'', ''null'', ''None'', ''nan'', ''?'']"

definition normalize_strings_cell :: "string option \<Rightarrow> string option" where
  "normalize_strings_cell v = replace_na CLEANER_MARKERS (map_option strip v)"

text \<open>Lines 184-201 of \<^verbatim>\<open>clean_dataset\<close>: the loop over all columns.\<close>

definition normalize_strings :: "pandas \<Rightarrow> dataframe \<Rightarrow> dataframe" where
  "normalize_strings L df =
     fold (\<lambda>c d. case get_col d c of
                    None \<Rightarrow> d
                  | Some col \<Rightarrow>
                      if is_object_or_string col
                      then set_col d c (StrCol (map normalize_strings_cell (astype_string L col)))
                      else d)
          (column_names df) df"

section \<open>Series helpers shared by cleaner.py and profiler.py\<close>

definition is_datetime64_any_dtype :: "column \<Rightarrow> bool" where
  "is_datetime64_any_dtype col = (case col of DateCol _ \<Rightarrow> True | _ \<Rightarrow> False)"

definition is_bool_dtype :: "column \<Rightarrow> bool" where
  "is_bool_dtype col = (case col of BoolCol _ \<Rightarrow> True | BooleanCol _ \<Rightarrow> True | _ \<Rightarrow> False)"

text \<open>pandas counts the boolean dtypes among the numeric ones.\<close>

definition is_numeric_dtype :: "column \<Rightarrow> bool" where
  "is_numeric_dtype col =
     (case col of NumCol _ \<Rightarrow> True | BoolCol _ \<Rightarrow> True | BooleanCol _ \<Rightarrow> True | _ \<Rightarrow> False)"

fun len :: "column \<Rightarrow> nat" where
  "len (ObjCol xs) = length xs"
| "len (StrCol xs) = length xs"
| "len (NumCol xs) = length xs"
| "len (BoolCol xs) = length xs"
| "len (BooleanCol xs) = length xs"
| "len (DateCol xs) = length xs"

definition count_none :: "'a option list \<Rightarrow> nat" where
  "count_none xs = length (filter (\<lambda>v. v = None) xs)"

text \<open>\<^verbatim>\<open>int(series.isna().sum())\<close>.\<close>

fun isna_sum :: "column \<Rightarrow> nat" where
  "isna_sum (ObjCol xs) = count_none xs"
| "isna_sum (StrCol xs) = count_none xs"
| "isna_sum (NumCol xs) = count_none xs"
| "isna_sum (BoolCol xs) = 0"
| "isna_sum (BooleanCol xs) = count_none xs"
| "isna_sum (DateCol xs) = count_none xs"

text \<open>The present values of a list of cells (\<^verbatim>\<open>dropna()\<close>).\<close>

definition dropna :: "'a option list \<Rightarrow> 'a list" where
  "dropna xs = concat (map (\<lambda>v. case v of None \<Rightarrow> [] | Some x \<Rightarrow> [x]) xs)"

text \<open>
  \<^verbatim>\<open>pd.to_numeric(series, errors="coerce")\<close>. Text is parsed cell by cell, a failure giving
  the missing sentinel; a numeric or boolean series is returned as it is.
\<close>

fun to_numeric_cell :: "pandas \<Rightarrow> cell \<Rightarrow> rat option" where
  "to_numeric_cell L (Text s) = to_numeric_text L s"
| "to_numeric_cell L (Number r) = Some r"
| "to_numeric_cell L c = to_numeric_object L c"

fun to_numeric :: "pandas \<Rightarrow> column \<Rightarrow> column" where
  "to_numeric L (ObjCol xs) = NumCol (map (\<lambda>v. Option.bind v (to_numeric_cell L)) xs)"
| "to_numeric L (StrCol xs) = NumCol (map (\<lambda>v. Option.bind v (to_numeric_text L)) xs)"
| "to_numeric L (NumCol xs) = NumCol xs"
| "to_numeric L (BoolCol xs) = BoolCol xs"
| "to_numeric L (BooleanCol xs) = BooleanCol xs"
| "to_numeric L (DateCol xs) = NumCol (map (to_numeric_timestamp L) xs)"

text \<open>
  The numbers a numeric series holds; pandas computes with \<open>True\<close> as 1 and \<open>False\<close> as 0.
  Text and time stamps have no numeric view: a series that went through \<open>to_numeric\<close> is never
  of these dtypes.
\<close>

definition of_bool_rat :: "bool \<Rightarrow> rat" where
  "of_bool_rat b = (if b then 1 else 0)"

fun num_values :: "column \<Rightarrow> rat option list" where
  "num_values (NumCol xs) = xs"
| "num_values (BoolCol xs) = map (\<lambda>b. Some (of_bool_rat b)) xs"
| "num_values (BooleanCol xs) = map (map_option of_bool_rat) xs"
| "num_values (ObjCol xs) = map (\<lambda>_. None) xs"
| "num_values (StrCol xs) = map (\<lambda>_. None) xs"
| "num_values (DateCol xs) = map (\<lambda>_. None) xs"

text \<open>Rounding an exact value to two decimals, ties to the even neighbour. It is the
  rounding of \<open>example_pandas\<close>; the examples stay away from decimal ties, where a binary
  double can fall on the other side.\<close>

definition round_half_even :: "rat \<Rightarrow> int" where
  "round_half_even x =
     (let f = \<lfloor>x\<rfloor>; d = x - of_int f
      in if d < 1 / 2 then f else if 1 / 2 < d then f + 1 else if even f then f else f + 1)"

definition round2_exact :: "rat \<Rightarrow> rat" where
  "round2_exact x = of_int (round_half_even (x * 100)) / 100"

text \<open>
  \<^verbatim>\<open>Series.quantile(q)\<close> with linear interpolation between the two nearest order statistics;
  undefined (NaN) on an empty series.
\<close>

definition quantile :: "rat list \<Rightarrow> rat \<Rightarrow> rat option" where
  "quantile xs q =
     (if xs = [] then None
      else let s = sort xs;
               pos = of_nat (length s - 1) * q;
               j = nat \<lfloor>pos\<rfloor>;
               g = pos - of_int \<lfloor>pos\<rfloor>
           in if g = 0 then Some (s ! j)
              else Some (s ! j + (s ! (j + 1) - s ! j) * g))"

text \<open>
  \<^verbatim>\<open>median(skipna=True)\<close>, \<^verbatim>\<open>mean(skipna=True)\<close> and the first entry of
  \<^verbatim>\<open>mode(dropna=True)\<close> (the modes come sorted, so the first is the least of the most
  frequent values); each is undefined on an empty series.
\<close>

definition median :: "rat list \<Rightarrow> rat option" where
  "median xs =
     (if xs = [] then None
      else let s = sort xs; n = length s
           in if odd n then Some (s ! (n div 2))
              else Some ((s ! (n div 2 - 1) + s ! (n div 2)) / 2))"

definition mean :: "rat list \<Rightarrow> rat option" where
  "mean xs = (if xs = [] then None else Some (sum_list xs / of_nat (length xs)))"

definition first_mode :: "'a::linorder list \<Rightarrow> 'a option" where
  "first_mode xs =
     (let vs = sort (remdups xs);
          best = fold max (map (count_list xs) vs) 0
      in find (\<lambda>v. count_list xs v = best) vs)"

section \<open>cleaner.py\<close>

text \<open>
  An entry of the action log. The source appends formatted strings; the constructors carry
  the same fields:
  \<^item> \<open>NormalizeStrings\<close>:
    \<^verbatim>\<open>"normalize_strings: stripped whitespace + standardized missing markers"\<close>
  \<^item> \<open>TryParseDatetime c b a\<close>: \<^verbatim>\<open>"try_parse_datetime: {c} (na {b}->{a})"\<close>
  \<^item> \<open>TryParseBool c\<close>: \<^verbatim>\<open>"try_parse_bool: {c}"\<close>
  \<^item> \<open>FillMissing c d b a\<close>: \<^verbatim>\<open>"fill_missing: {c} ({d}) (na {b}->{a})"\<close>
  \<^item> \<open>CapOutliers c k\<close>: \<^verbatim>\<open>"cap_outliers: {c} (changed {k})"\<close>
  \<^item> \<open>Reconcile k\<close>: \<^verbatim>\<open>"reconcile: filled {k} values across price/qty/total"\<close>
\<close>

datatype action =
    NormalizeStrings
  | TryParseDatetime string nat nat
  | TryParseBool string
  | FillMissing string string nat nat
  | CapOutliers string nat
  | Reconcile nat


datatype error = ValueError string

definition BOOL_TRUE :: "string list" where
  "BOOL_TRUE = [''true'', ''t'', ''yes'', ''y'', ''1'']"

definition BOOL_FALSE :: "string list" where
  "BOOL_FALSE = [''false'', ''f'', ''no'', ''n'', ''0'']"

text \<open>
  \<^verbatim>\<open>_parse_bool\<close> on one cell of the stringified series: strip, lower, the empty-ish
  tokens to NA, then the two assignments in the source's order (the one for \<open>BOOL_FALSE\<close>
  comes last and would win).
\<close>

definition parse_bool_cell :: "string option \<Rightarrow> bool option" where
  "parse_bool_cell v =
     (case replace_na ['''', ''nan'', ''none''] (map_option (lower \<circ> strip) v) of
        None \<Rightarrow> None
      | Some s \<Rightarrow> if s \<in> set BOOL_FALSE then Some False
                  else if s \<in> set BOOL_TRUE then Some True
                  else None)"

definition parse_bool :: "pandas \<Rightarrow> column \<Rightarrow> column" where
  "parse_bool L series =
     (case series of
        BoolCol xs \<Rightarrow> BooleanCol (map Some xs)
      | _ \<Rightarrow> BooleanCol (map parse_bool_cell (astype_string L series)))"

definition try_parse_datetime ::
    "pandas \<Rightarrow> dataframe \<Rightarrow> string \<Rightarrow> action list \<Rightarrow> dataframe \<times> action list" where
  "try_parse_datetime L df col actions =
     (case get_col df col of
        None \<Rightarrow> (df, actions)
      | Some s \<Rightarrow>
          let n_before = isna_sum s;
              s' = DateCol (to_datetime_series L s);
              n_after = isna_sum s'
          in (set_col df col s', actions @ [TryParseDatetime col n_before n_after]))"

text \<open>\<^verbatim>\<open>fillna(val)\<close> with a number, on the numeric view of the series.\<close>

definition fillna_num :: "rat \<Rightarrow> column \<Rightarrow> column" where
  "fillna_num val s =
     NumCol (map (\<lambda>v. case v of None \<Rightarrow> Some val | Some x \<Rightarrow> Some x) (num_values s))"

definition fill_missing_numeric ::
    "pandas \<Rightarrow> dataframe \<Rightarrow> string \<Rightarrow> string \<Rightarrow> action list
       \<Rightarrow> error + dataframe \<times> action list" where
  "fill_missing_numeric L df col strategy actions =
     (case get_col df col of
        None \<Rightarrow> Inr (df, actions)
      | Some s0 \<Rightarrow>
          let s = to_numeric L s0;
              df1 = set_col df col s;
              n_before = isna_sum s
          in if n_before = 0 then Inr (df1, actions)
             else
               (case (if strategy = ''median'' then Inr (median (dropna (num_values s)))
                      else if strategy = ''mean'' then Inr (mean (dropna (num_values s)))
                      else if strategy = ''mode'' then Inr (first_mode (dropna (num_values s)))
                      else Inl (ValueError (''Unknown numeric fill strategy: '' @ strategy))) of
                  Inl e \<Rightarrow> Inl e
                | Inr None \<Rightarrow> Inr (df1, actions)
                | Inr (Some val) \<Rightarrow>
                    let s2 = fillna_num val s;
                        n_after = isna_sum s2
                    in Inr (set_col df1 col s2,
                            actions @ [FillMissing col strategy n_before n_after])))"

definition fill_missing_bool_mode ::
    "pandas \<Rightarrow> dataframe \<Rightarrow> string \<Rightarrow> action list \<Rightarrow> dataframe \<times> action list" where
  "fill_missing_bool_mode L df col actions =
     (case get_col df col of
        None \<Rightarrow> (df, actions)
      | Some s0 \<Rightarrow>
          let s = parse_bool L s0;
              df1 = set_col df col s;
              n_before = isna_sum s
          in if n_before = 0 then (df1, actions)
             else
               let vals = (case s of BooleanCol xs \<Rightarrow> xs | _ \<Rightarrow> []);
                   fill_val = (case first_mode (dropna vals) of None \<Rightarrow> False | Some b \<Rightarrow> b);
                   s2 = BooleanCol (map (\<lambda>v. case v of None \<Rightarrow> Some fill_val
                                                     | Some b \<Rightarrow> Some b) vals);
                   n_after = isna_sum s2
               in (set_col df1 col s2,
                   actions @ [FillMissing col (''mode='' @ str_bool fill_val) n_before n_after]))"

text \<open>
  \<^verbatim>\<open>fillna("Unknown")\<close>: a text series keeps its dtype; a datetime series cannot hold the
  string, and pandas answers with an object series of time stamps and strings.
\<close>

fun fillna_unknown :: "column \<Rightarrow> column" where
  "fillna_unknown (ObjCol xs) =
     ObjCol (map (\<lambda>v. case v of None \<Rightarrow> Some (Text ''Unknown'') | Some x \<Rightarrow> Some x) xs)"
| "fillna_unknown (StrCol xs) =
     StrCol (map (\<lambda>v. case v of None \<Rightarrow> Some ''Unknown'' | Some x \<Rightarrow> Some x) xs)"
| "fillna_unknown (DateCol xs) =
     ObjCol (map (\<lambda>v. case v of None \<Rightarrow> Some (Text ''Unknown'')
                              | Some t \<Rightarrow> Some (Timestamp t)) xs)"
| "fillna_unknown s = s"

definition fill_missing_categorical_unknown ::
    "dataframe \<Rightarrow> string \<Rightarrow> action list \<Rightarrow> dataframe \<times> action list" where
  "fill_missing_categorical_unknown df col actions =
     (case get_col df col of
        None \<Rightarrow> (df, actions)
      | Some s \<Rightarrow>
          if is_numeric_dtype s then (df, actions)
          else
            let n_before = isna_sum s
            in if n_before = 0 then (df, actions)
               else
                 let s2 = fillna_unknown s;
                     n_after = isna_sum s2
                 in (set_col df col s2,
                     actions @ [FillMissing col (''categorical='' @ CHR 0x27 # ''Unknown'' @ [CHR 0x27])
                                  n_before n_after]))"

text \<open>\<^verbatim>\<open>clip(lower=lo, upper=hi)\<close> on one cell.\<close>

definition clip :: "rat \<Rightarrow> rat \<Rightarrow> rat option \<Rightarrow> rat option" where
  "clip lo hi v = map_option (\<lambda>x. min (max x lo) hi) v"

definition cap_outliers_iqr ::
    "dataframe \<Rightarrow> string \<Rightarrow> action list \<Rightarrow> rat \<Rightarrow> dataframe \<times> action list" where
  "cap_outliers_iqr df col actions k =
     (case get_col df col of
        None \<Rightarrow> (df, actions)
      | Some c \<Rightarrow>
          if \<not> is_numeric_dtype c then (df, actions)
          else if is_bool_dtype c then (df, actions)
          else
            let s = dropna (num_values c)
            in if s = [] then (df, actions)
               else
                 (case (quantile s (1 / 4), quantile s (3 / 4)) of
                    (Some q1, Some q3) \<Rightarrow>
                      let iqr = q3 - q1
                      in if iqr = 0 then (df, actions)
                         else
                           let lo = q1 - k * iqr;
                               hi = q3 + k * iqr;
                               n_before = num_values c;
                               n_after = map (clip lo hi) n_before;
                               changed = length (filter (\<lambda>(b, a). b \<noteq> None \<and> b \<noteq> a)
                                                        (zip n_before n_after))
                           in (set_col df col (NumCol n_after),
                               if changed \<noteq> 0 then actions @ [CapOutliers col changed]
                               else actions)
                  | _ \<Rightarrow> (df, actions)))"

text \<open>\<^verbatim>\<open>df.loc[mask, col] = vals[mask]\<close>: the cells of the masked rows are overwritten.\<close>

definition loc_assign ::
    "dataframe \<Rightarrow> bool list \<Rightarrow> string \<Rightarrow> rat option list \<Rightarrow> dataframe" where
  "loc_assign df sel col vals =
     (case get_col df col of
        None \<Rightarrow> df
      | Some c \<Rightarrow>
          set_col df col
            (NumCol (map (\<lambda>(m, v, old). if m then v else old)
                         (zip sel (zip vals (num_values c))))))"

text \<open>
  The loop \<^verbatim>\<open>for c in (...): if c in df.columns: df[c] = _to_numeric(df[c])\<close>, which opens
  \<^verbatim>\<open>_reconcile_price_qty_total\<close> and is stage 3 of \<^verbatim>\<open>clean_dataset\<close>.
\<close>

definition to_numeric_columns :: "pandas \<Rightarrow> string list \<Rightarrow> dataframe \<Rightarrow> dataframe" where
  "to_numeric_columns L cs df =
     fold (\<lambda>c d. case get_col d c of None \<Rightarrow> d | Some s \<Rightarrow> set_col d c (to_numeric L s)) cs df"

text \<open>
  \<^verbatim>\<open>_reconcile_price_qty_total\<close>. The series \<open>p\<close>, \<open>q\<close>, \<open>t\<close> are read once, before the three
  passes, as in the source. Whether they alias the frame's columns makes no difference to
  the masks: a row that an earlier pass filled has the other two cells present, and every
  later mask asks for one of those to be missing.
\<close>

definition reconcile_price_qty_total ::
    "pandas \<Rightarrow> dataframe \<Rightarrow> string \<Rightarrow> string \<Rightarrow> string \<Rightarrow> action list
       \<Rightarrow> dataframe \<times> action list \<times> nat" where
  "reconcile_price_qty_total L df price_col qty_col total_col actions =
     (let df = to_numeric_columns L [price_col, qty_col, total_col] df
      in case (get_col df price_col, get_col df qty_col, get_col df total_col) of
           (Some pc, Some qc, Some tc) \<Rightarrow>
             let p = num_values pc; q = num_values qc; t = num_values tc;
                 rows = zip p (zip q t);
                 filled = 0;
                 sel = map (\<lambda>(p, q, t). p \<noteq> None \<and> q \<noteq> None \<and> t = None) rows;
                 (df, filled) =
                   (if True \<in> set sel
                    then (loc_assign df sel total_col
                            (map (\<lambda>(p, q, t). case (p, q) of
                                     (Some a, Some b) \<Rightarrow> Some (round2 L (a * b)) | _ \<Rightarrow> None) rows),
                          filled + length (filter id sel))
                    else (df, filled));
                 sel = map (\<lambda>(p, q, t). t \<noteq> None \<and> q \<noteq> None \<and> p = None \<and> q \<noteq> Some 0) rows;
                 (df, filled) =
                   (if True \<in> set sel
                    then (loc_assign df sel price_col
                            (map (\<lambda>(p, q, t). case (t, q) of
                                     (Some a, Some b) \<Rightarrow> Some (round2 L (a / b)) | _ \<Rightarrow> None) rows),
                          filled + length (filter id sel))
                    else (df, filled));
                 sel = map (\<lambda>(p, q, t). t \<noteq> None \<and> p \<noteq> None \<and> q = None \<and> p \<noteq> Some 0) rows;
                 (df, filled) =
                   (if True \<in> set sel
                    then (loc_assign df sel qty_col
                            (map (\<lambda>(p, q, t). case (t, p) of
                                     (Some a, Some b) \<Rightarrow> Some (round2 L (a / b)) | _ \<Rightarrow> None) rows),
                          filled + length (filter id sel))
                    else (df, filled))
             in (df, if 0 < filled then actions @ [Reconcile filled] else actions, filled)
         | _ \<Rightarrow> (df, actions, 0))"

text \<open>The four imputation and capping loops of \<^verbatim>\<open>clean_dataset\<close> (lines 222-240).\<close>

definition fill_numeric_stage ::
    "pandas \<Rightarrow> dataframe \<times> action list \<Rightarrow> error + dataframe \<times> action list" where
  "fill_numeric_stage L st =
     fold (\<lambda>col r. case r of
                      Inl e \<Rightarrow> Inl e
                    | Inr (d, a) \<Rightarrow>
                        (case get_col d col of
                           None \<Rightarrow> Inr (d, a)
                         | Some s \<Rightarrow>
                             if is_numeric_dtype s \<and> \<not> is_bool_dtype s
                             then fill_missing_numeric L d col ''median'' a
                             else Inr (d, a)))
          (column_names (fst st)) (Inr st)"

definition fill_bool_stage ::
    "pandas \<Rightarrow> dataframe \<times> action list \<Rightarrow> dataframe \<times> action list" where
  "fill_bool_stage L st =
     fold (\<lambda>col (d, a). case get_col d col of
                           None \<Rightarrow> (d, a)
                         | Some s \<Rightarrow>
                             if is_bool_dtype s then fill_missing_bool_mode L d col a
                             else (d, a))
          (column_names (fst st)) st"

definition fill_categorical_stage ::
    "dataframe \<times> action list \<Rightarrow> dataframe \<times> action list" where
  "fill_categorical_stage st =
     fold (\<lambda>col (d, a). fill_missing_categorical_unknown d col a) (column_names (fst st)) st"

definition cap_outliers_stage ::
    "dataframe \<times> action list \<Rightarrow> dataframe \<times> action list" where
  "cap_outliers_stage st =
     fold (\<lambda>col (d, a). case get_col d col of
                           None \<Rightarrow> (d, a)
                         | Some s \<Rightarrow>
                             if is_numeric_dtype s then cap_outliers_iqr d col a (3 / 2)
                             else (d, a))
          (column_names (fst st)) st"

definition clean_dataset :: "pandas \<Rightarrow> dataframe \<Rightarrow> error + dataframe \<times> action list" where
  "clean_dataset L df =
     (let cleaned = normalize_strings L df;
          actions = [NormalizeStrings];
          (cleaned, actions) = try_parse_datetime L cleaned ''transaction_date'' actions;
          (cleaned, actions) =
            (case get_col cleaned ''discount_applied'' of
               None \<Rightarrow> (cleaned, actions)
             | Some s \<Rightarrow> (set_col cleaned ''discount_applied'' (parse_bool L s),
                          actions @ [TryParseBool ''discount_applied'']));
          cleaned = to_numeric_columns L [''price_per_unit'', ''quantity'', ''total_spent''] cleaned;
          (cleaned, actions, filled) =
            reconcile_price_qty_total L cleaned ''price_per_unit'' ''quantity'' ''total_spent'' actions
      in case fill_numeric_stage L (cleaned, actions) of
           Inl e \<Rightarrow> Inl e
         | Inr st \<Rightarrow> Inr (cap_outliers_stage (fill_categorical_stage (fill_bool_stage L st))))"

section \<open>profiler.py\<close>

text \<open>
  The three regular-expression replacements of \<^verbatim>\<open>clean_numeric_series\<close>: the characters
  \<^verbatim>\<open>$\<close> and \<^verbatim>\<open>,\<close>; the shortest spans from \<^verbatim>\<open>[\<close> to the next \<^verbatim>\<open>]\<close> (the dot of the pattern
  does not match a newline); the dagger and double dagger, which are the byte sequences
  E2 80 A0 and E2 80 A1.
\<close>

fun bracket_rest :: "string \<Rightarrow> string option" where
  "bracket_rest [] = None"
| "bracket_rest (c # cs) =
     (if c = CHR '']'' then Some cs
      else if c = CHR 0x0A then None
      else bracket_rest cs)"

lemma bracket_rest_length [termination_simp]:
  "bracket_rest cs = Some r \<Longrightarrow> length r < Suc (length cs)"
  by (induction cs) (auto split: if_splits)

fun remove_brackets :: "string \<Rightarrow> string" where
  "remove_brackets [] = []"
| "remove_brackets (c # cs) =
     (if c = CHR ''[''
      then (case bracket_rest cs of
              Some r \<Rightarrow> remove_brackets r
            | None \<Rightarrow> c # remove_brackets cs)
      else c # remove_brackets cs)"

fun remove_daggers :: "string \<Rightarrow> string" where
  "remove_daggers (a # b # c # cs) =
     (if a = CHR 0xE2 \<and> b = CHR 0x80 \<and> (c = CHR 0xA0 \<or> c = CHR 0xA1)
      then remove_daggers cs
      else a # remove_daggers (b # c # cs))"
| "remove_daggers cs = cs"

definition clean_numeric_text :: "string \<Rightarrow> string" where
  "clean_numeric_text s =
     lower (strip (remove_daggers (remove_brackets
       (filter (\<lambda>c. c \<noteq> CHR ''$'' \<and> c \<noteq> CHR '','') s))))"

definition clean_numeric_series :: "pandas \<Rightarrow> column \<Rightarrow> column" where
  "clean_numeric_series L series =
     (if is_numeric_dtype series then series
      else if is_datetime64_any_dtype series \<or> is_bool_dtype series
      then NumCol (replicate (len series) None)
      else
        let cleaned = map (map_option clean_numeric_text) (astype_string L series);
            cleaned = map (replace_na MISSING_MARKERS) cleaned
        in to_numeric L (StrCol cleaned))"

text \<open>The cells of a series, whatever its dtype.\<close>

fun cells :: "column \<Rightarrow> cell option list" where
  "cells (ObjCol xs) = xs"
| "cells (StrCol xs) = map (map_option Text) xs"
| "cells (NumCol xs) = map (map_option Number) xs"
| "cells (BoolCol xs) = map (\<lambda>b. Some (Boolean b)) xs"
| "cells (BooleanCol xs) = map (map_option Boolean) xs"
| "cells (DateCol xs) = map (map_option Timestamp) xs"

text \<open>
  pandas counts distinct values and compares rows with Python's equality, for which
  \<open>True == 1\<close> and \<open>False == 0\<close>: in an object series a boolean and the number it equals are
  one value. \<open>py_key\<close> sends a cell to the representative of its equality class.
\<close>

fun py_key :: "cell \<Rightarrow> cell" where
  "py_key (Boolean b) = Number (of_bool_rat b)"
| "py_key c = c"

text \<open>\<^verbatim>\<open>series.nunique(dropna=True)\<close>.\<close>

definition nunique :: "column \<Rightarrow> nat" where
  "nunique series = length (remdups (map py_key (dropna (cells series))))"

text \<open>\<^verbatim>\<open>series.notna().mean()\<close>: undefined (NaN) on an empty series.\<close>

definition notna_mean :: "column \<Rightarrow> rat option" where
  "notna_mean series =
     (if len series = 0 then None
      else Some (of_nat (len series - isna_sum series) / of_nat (len series)))"

definition infer_column_type :: "pandas \<Rightarrow> column \<Rightarrow> string" where
  "infer_column_type L series =
     (if is_datetime64_any_dtype series then ''datetime''
      else if is_bool_dtype series then ''binary''
      else if is_numeric_dtype series then ''numeric''
      else
        let numeric_version = clean_numeric_series L series
        in if (case notna_mean numeric_version of None \<Rightarrow> False | Some m \<Rightarrow> 8 / 10 < m)
           then ''numeric''
           else
             let n = len series
             in if n = 0 then ''categorical''
                else
                  let nu = nunique series
                  in if nu = 2 then ''binary''
                     else if 9 / 10 < (of_nat nu :: rat) / of_nat n then ''id''
                     else ''categorical'')"

definition detect_outliers :: "column \<Rightarrow> nat" where
  "detect_outliers series =
     (if \<not> is_numeric_dtype series then 0
      else
        let s = dropna (num_values series)
        in if length s < 3 then 0
           else
             (case (quantile s (1 / 4), quantile s (3 / 4)) of
                (Some q1, Some q3) \<Rightarrow>
                  let iqr = q3 - q1
                  in if iqr = 0 then 0
                     else
                       let lo = q1 - (3 / 2) * iqr;
                           hi = q3 + (3 / 2) * iqr
                       in length (filter (\<lambda>x. x < lo \<or> hi < x) s)
              | _ \<Rightarrow> 0))"

text \<open>
  \<^verbatim>\<open>int(df.duplicated().sum())\<close>: the rows equal to an earlier row, missing cells comparing
  equal; a frame with no row or no column has none.
\<close>

definition row_at :: "dataframe \<Rightarrow> nat \<Rightarrow> cell option list" where
  "row_at df i =
     map (\<lambda>(c, col). if i < len col then map_option py_key (cells col ! i) else None) (columns df)"

definition duplicated_sum :: "dataframe \<Rightarrow> nat" where
  "duplicated_sum df =
     (if index_len df = 0 \<or> columns df = [] then 0
      else
        let rs = map (row_at df) [0..<index_len df]
        in length (filter (\<lambda>i. rs ! i \<in> set (take i rs)) [0..<index_len df]))"

text \<open>
  One entry of \<open>columns_profile\<close>. The skew and the entropy are floating-point
  transcendental quantities and are left out of the model.
\<close>

record column_profile =
  col_type :: string
  col_missing_percent :: rat
  cardinality :: nat
  outliers :: "nat option"

record profile =
  rows :: nat
  cols :: nat
  missing_percent :: rat
  duplicate_percent :: rat
  outlier_percent :: rat
  data_health_score :: "rat option"
  columns_profile :: "(string \<times> column_profile) list"

text \<open>The body of the loop over the columns (lines 138-163): the column's profile.\<close>

definition profile_column :: "pandas \<Rightarrow> nat \<Rightarrow> column \<Rightarrow> column_profile" where
  "profile_column L nrows raw_col =
     (let ctype = infer_column_type L raw_col
      in \<lparr> col_type = ctype,
           col_missing_percent =
             (if nrows \<noteq> 0
              then round2 L (of_nat (isna_sum raw_col) / of_nat (len raw_col) * 100) else 0),
           cardinality = nunique raw_col,
           outliers =
             (if ctype = ''numeric''
              then let numeric_col = dropna (num_values (clean_numeric_series L raw_col))
                   in if 3 \<le> length numeric_col
                      then Some (detect_outliers (NumCol (map Some numeric_col)))
                      else Some 0
              else None) \<rparr>)"

text \<open>
  \<^verbatim>\<open>profile_dataset\<close>. With rational arithmetic the total penalty is never NaN or infinite
  (both divisors are non-zero in that branch), so the branch that answers 0.0 for such a
  penalty does not appear.
\<close>

definition profile_dataset :: "pandas \<Rightarrow> dataframe \<Rightarrow> profile" where
  "profile_dataset L df0 =
     (let df = normalize_missing_tokens L df0;
          nrows = index_len df;
          ncols = length (columns df);
          total_cells = nrows * ncols;
          missing_cells = sum_list (map (\<lambda>(c, col). isna_sum col) (columns df));
          duplicate_rows = duplicated_sum df;
          column_profiles = map (\<lambda>(c, col). (c, profile_column L nrows col)) (columns df);
          total_outliers =
            sum_list (map (\<lambda>(c, p). case outliers p of None \<Rightarrow> 0 | Some k \<Rightarrow> k) column_profiles);
          (health_score, missing_pct, duplicate_pct, outlier_pct) =
            (if nrows = 0 \<or> total_cells = 0 then (None, 0, 0, 0)
             else
               let missing_penalty = (of_nat missing_cells / of_nat total_cells) * 40;
                   duplicate_penalty = (of_nat duplicate_rows / of_nat nrows) * 20;
                   outlier_penalty = min ((of_nat total_outliers / of_nat total_cells) * 30) 30;
                   total_penalty = missing_penalty + duplicate_penalty + outlier_penalty
               in (Some (round2 L (max 0 (100 - total_penalty))),
                   round2 L ((of_nat missing_cells / of_nat total_cells) * 100),
                   round2 L ((of_nat duplicate_rows / of_nat nrows) * 100),
                   round2 L ((of_nat total_outliers / of_nat total_cells) * 100)))
      in \<lparr> rows = nrows, cols = ncols,
           missing_percent = missing_pct,
           duplicate_percent = duplicate_pct,
           outlier_percent = outlier_pct,
           data_health_score = health_score,
           columns_profile = column_profiles \<rparr>)"

text \<open>Per-column forms of the two normalisation loops, used to reason about them.\<close>

definition normalize_column :: "pandas \<Rightarrow> column \<Rightarrow> column" where
  "normalize_column L col =
     (if is_object_or_string col then StrCol (map normalize_token (astype_string L col)) else col)"

definition normalize_strings_column :: "pandas \<Rightarrow> column \<Rightarrow> column" where
  "normalize_strings_column L col =
     (if is_object_or_string col
      then StrCol (map normalize_strings_cell (astype_string L col)) else col)"



text \<open>
  The stages of \<^verbatim>\<open>clean_dataset\<close> column by column: what each stage does to the column
  named \<open>n\<close> and what it appends to the log for it. \<open>stage_map\<close> applies such a step to every
  column of a frame. They are used to reason about the loops of \<^verbatim>\<open>clean_dataset\<close>.
\<close>

definition stage_map ::
    "(string \<Rightarrow> column \<Rightarrow> column \<times> action list) \<Rightarrow> dataframe \<times> action list
       \<Rightarrow> dataframe \<times> action list" where
  "stage_map K st =
     ((fst st)\<lparr>columns := map (\<lambda>(n, col). (n, fst (K n col))) (columns (fst st))\<rparr>,
      snd st @ concat (map (\<lambda>(n, col). snd (K n col)) (columns (fst st))))"











definition map_cols :: "(string \<Rightarrow> column \<Rightarrow> column) \<Rightarrow> dataframe \<Rightarrow> dataframe" where
  "map_cols f df = df\<lparr>columns := map (\<lambda>(n, col). (n, f n col)) (columns df)\<rparr>"



section \<open>A library instance for worked examples\<close>

text \<open>
  The examples below need the library's conversions at a few concrete values.
  \<open>example_pandas\<close> parses a non-empty string of decimal digits as that number and nothing
  else, which is what \<^verbatim>\<open>pd.to_numeric\<close> does on digit strings and on the words used in the
  examples, and rounds the exact value; its other fields are not reached by any example.
\<close>

definition digit_value :: "char \<Rightarrow> nat option" where
  "digit_value c = (let n = (of_char c :: nat) in if 48 \<le> n \<and> n \<le> 57 then Some (n - 48) else None)"

fun digits_value :: "nat \<Rightarrow> string \<Rightarrow> nat option" where
  "digits_value acc [] = Some acc"
| "digits_value acc (c # cs) =
     (case digit_value c of None \<Rightarrow> None | Some d \<Rightarrow> digits_value (10 * acc + d) cs)"

definition parse_digits :: "string \<Rightarrow> rat option" where
  "parse_digits s = (if s = [] then None else map_option of_nat (digits_value 0 s))"

definition example_pandas :: pandas where
  "example_pandas =
     \<lparr> str_number = (\<lambda>r. []),
       str_timestamp = (\<lambda>t. []),
       to_numeric_text = parse_digits,
       to_numeric_object = (\<lambda>c. None),
       to_numeric_timestamp = (\<lambda>t. None),
       to_datetime_series = (\<lambda>c. replicate (len c) None),
       round2 = round2_exact \<rparr>"

section \<open>Facts about strings\<close>

lemma of_char_lower_char:
  "(of_char (lower_char c) :: nat) =
     (if 65 \<le> (of_char c :: nat) \<and> (of_char c :: nat) \<le> 90 then of_char c + 32 else of_char c)"
  by (simp add: lower_char_def Let_def)

lemma lower_char_idem: "lower_char (lower_char c) = lower_char c"
  by (simp add: lower_char_def Let_def)

lemma isspace_lower_char: "isspace (lower_char c) = isspace c"
  by (auto simp add: isspace_def of_char_lower_char Let_def)

lemma lower_idem: "lower (lower s) = lower s"
  by (simp add: lower_def lower_char_idem)

lemma strip_lower: "strip (lower s) = lower (strip s)"
proof -
  have c: "isspace \<circ> lower_char = isspace"
    by (rule ext) (simp add: isspace_lower_char)
  have d: "dropWhile isspace (map lower_char xs) = map lower_char (dropWhile isspace xs)" for xs
    by (simp add: dropWhile_map c)
  show ?thesis
    by (simp only: strip_def lower_def d rev_map)
qed

lemma dropWhile_self: "xs = [] \<or> \<not> P (hd xs) \<Longrightarrow> dropWhile P xs = xs"
  by (cases xs) auto

lemma strip_ends:
  "strip s = [] \<or> (\<not> isspace (hd (strip s)) \<and> \<not> isspace (last (strip s)))"
proof (cases "strip s = []")
  case True
  then show ?thesis by simp
next
  case False
  define u where "u = dropWhile isspace s"
  define v where "v = dropWhile isspace (rev u)"
  have sv: "strip s = rev v"
    by (simp add: strip_def u_def v_def)
  with False have vne: "v \<noteq> []" by simp
  have hv: "\<not> isspace (hd v)"
    using vne unfolding v_def by (rule hd_dropWhile)
  have "rev u = takeWhile isspace (rev u) @ v"
    by (simp add: v_def)
  then have "u = rev v @ rev (takeWhile isspace (rev u))"
    by (metis rev_append rev_rev_ident)
  then have hu: "hd u = hd (rev v)"
    using vne by (metis hd_append2 rev_is_Nil_conv)
  have une: "u \<noteq> []"
    using vne unfolding v_def by auto
  have "\<not> isspace (hd u)"
    using une unfolding u_def by (rule hd_dropWhile)
  with hu hv vne show ?thesis
    by (simp add: sv last_rev)
qed

lemma strip_fixed:
  assumes "t = [] \<or> (\<not> isspace (hd t) \<and> \<not> isspace (last t))"
  shows "strip t = t"
proof (cases "t = []")
  case True
  then show ?thesis by (simp add: strip_def)
next
  case False
  with assms have h: "\<not> isspace (hd t)" and l: "\<not> isspace (last t)" by auto
  have a: "dropWhile isspace t = t"
    using h by (simp add: dropWhile_self)
  have "hd (rev t) = last t"
    using False by (simp add: hd_rev)
  then have b: "dropWhile isspace (rev t) = rev t"
    using l by (simp add: dropWhile_self)
  show ?thesis
    by (simp add: strip_def a b)
qed

lemma strip_idem: "strip (strip s) = strip s"
  by (rule strip_fixed) (rule strip_ends)

section \<open>Loops over the columns\<close>

text \<open>
  With distinct column names, a loop that rewrites one column per iteration is a map over
  the columns.
\<close>

lemma update_as_map:
  "distinct (map fst cs) \<Longrightarrow> map_of cs n = Some col \<Longrightarrow>
   AList.update n (F n col) cs = map (\<lambda>(m, c). if m = n then (m, F m c) else (m, c)) cs"
proof (induction cs)
  case Nil
  then show ?case by simp
next
  case (Cons p cs)
  obtain m c where p: "p = (m, c)" by (cases p)
  show ?case
  proof (cases "m = n")
    case True
    with Cons.prems p have "col = c" by simp
    moreover have "map (\<lambda>(m, c). if m = n then (m, F m c) else (m, c)) cs = cs"
      using Cons.prems True p by (intro map_idI) (auto simp: image_iff)
    ultimately show ?thesis using True p by simp
  next
    case False
    with Cons p show ?thesis by simp
  qed
qed

lemma set_col_same: "get_col d c = Some col \<Longrightarrow> set_col d c col = d"
  by (simp add: set_col_def get_col_def update_triv)


lemma column_names_set_col:
  "get_col d c = Some col \<Longrightarrow> column_names (set_col d c v) = column_names d"
proof -
  assume "get_col d c = Some col"
  then have "c \<in> fst ` set (columns d)"
    unfolding get_col_def by (metis domI dom_map_of_conv_image_fst)
  then show ?thesis
    by (simp add: column_names_def set_col_def update_keys)
qed

lemma fold_columns:
  assumes step: "\<And>c d. step c d =
                   (case get_col d c of None \<Rightarrow> d | Some col \<Rightarrow> set_col d c (F c col))"
  shows "distinct (column_names df) \<Longrightarrow> distinct ns \<Longrightarrow>
         fold step ns df =
         df\<lparr>columns := map (\<lambda>(n, col). if n \<in> set ns then (n, F n col) else (n, col))
                            (columns df)\<rparr>"
proof (induction ns arbitrary: df)
  case Nil
  have "map (\<lambda>(n, col). (n, col)) (columns df) = columns df"
    by (intro map_idI) auto
  then show ?case by simp
next
  case (Cons n ns)
  let ?g = "\<lambda>S. (\<lambda>(m, col). if m \<in> S then (m, F m col) else (m, col))"
  show ?case
  proof (cases "get_col df n")
    case None
    then have nk: "n \<notin> fst ` set (columns df)"
      by (simp add: get_col_def map_of_eq_None_iff)
    have "map (?g (set (n # ns))) (columns df) = map (?g (set ns)) (columns df)"
      using nk by (intro map_cong) (auto simp: image_iff)
    moreover have "step n df = df" using None by (simp add: step)
    ultimately show ?thesis using Cons by simp
  next
    case (Some col)
    let ?df = "set_col df n (F n col)"
    have u: "columns ?df = map (\<lambda>(m, c). if m = n then (m, F m c) else (m, c)) (columns df)"
      using Some Cons.prems(1) unfolding set_col_def get_col_def column_names_def
      by (simp add: update_as_map)
    have d: "distinct (column_names ?df)"
      using Cons.prems(1) Some by (simp add: column_names_set_col)
    have "step n df = ?df" using Some by (simp add: step)
    then have "fold step (n # ns) df = fold step ns ?df" by simp
    also have "\<dots> = ?df\<lparr>columns := map (?g (set ns)) (columns ?df)\<rparr>"
      using Cons.IH[OF d] Cons.prems(2) by simp
    also have "map (?g (set ns)) (columns ?df) = map (?g (set (n # ns))) (columns df)"
      unfolding u using Cons.prems(2) by (auto simp: comp_def)
    finally show ?thesis by (simp add: set_col_def)
  qed
qed

section \<open>The two normalisation loops, column by column\<close>

lemma normalize_strings_map:
  assumes "distinct (column_names df)"
  shows "normalize_strings L df =
         df\<lparr>columns := map (\<lambda>(n, col). (n, normalize_strings_column L col)) (columns df)\<rparr>"
proof -
  let ?step = "\<lambda>c d. case get_col d c of
                    None \<Rightarrow> d
                  | Some col \<Rightarrow>
                      if is_object_or_string col
                      then set_col d c (StrCol (map normalize_strings_cell (astype_string L col)))
                      else d"
  have step: "?step c d = (case get_col d c of None \<Rightarrow> d
                | Some col \<Rightarrow> set_col d c (normalize_strings_column L col))" for c d
    by (simp add: normalize_strings_column_def set_col_same split: option.splits)
  have "fold ?step (column_names df) df =
        df\<lparr>columns := map (\<lambda>(n, col). if n \<in> set (column_names df)
                 then (n, normalize_strings_column L col) else (n, col)) (columns df)\<rparr>"
    using assms by (intro fold_columns [where F = "\<lambda>n. normalize_strings_column L"] step)
  moreover have "map (\<lambda>(n, col). if n \<in> set (column_names df)
                 then (n, normalize_strings_column L col) else (n, col)) (columns df)
       = map (\<lambda>(n, col). (n, normalize_strings_column L col)) (columns df)"
    by (intro map_cong) (force simp: column_names_def)+
  ultimately show ?thesis by (simp add: normalize_strings_def)
qed

lemma normalize_missing_tokens_map:
  assumes "distinct (column_names df)"
  shows "normalize_missing_tokens L df =
         df\<lparr>columns := map (\<lambda>(n, col). (n, normalize_column L col)) (columns df)\<rparr>"
proof -
  let ?step = "\<lambda>c d. case get_col d c of
                         None \<Rightarrow> d
                       | Some col \<Rightarrow> set_col d c (StrCol (map normalize_token (astype_string L col)))"
  let ?oc = "map fst (filter (\<lambda>(c, col). is_object_or_string col) (columns df))"
  have dn: "distinct ?oc"
    using assms unfolding column_names_def by (rule distinct_map_filter)
  have "fold ?step ?oc df =
        df\<lparr>columns := map (\<lambda>(n, col). if n \<in> set ?oc
                 then (n, StrCol (map normalize_token (astype_string L col))) else (n, col))
                 (columns df)\<rparr>"
    using assms dn
    by (intro fold_columns
          [where F = "\<lambda>n col. StrCol (map normalize_token (astype_string L col))"]) simp
  moreover have "map (\<lambda>(n, col). if n \<in> set ?oc
                 then (n, StrCol (map normalize_token (astype_string L col))) else (n, col))
                 (columns df)
       = map (\<lambda>(n, col). (n, normalize_column L col)) (columns df)"
  proof (intro map_cong refl)
    fix x assume x: "x \<in> set (columns df)"
    obtain n col where xn: "x = (n, col)" by (cases x)
    have "n \<in> set ?oc \<longleftrightarrow> is_object_or_string col"
    proof
      assume "n \<in> set ?oc"
      then obtain col' where c': "(n, col') \<in> set (columns df)" "is_object_or_string col'"
        by auto
      with x xn assms have "col' = col"
        unfolding column_names_def by (meson eq_key_imp_eq_value)
      with c' show "is_object_or_string col" by simp
    next
      assume "is_object_or_string col"
      with x xn show "n \<in> set ?oc" by (auto simp: image_iff)
    qed
    then show "(case x of (n, col) \<Rightarrow> if n \<in> set ?oc
                 then (n, StrCol (map normalize_token (astype_string L col))) else (n, col)) =
               (case x of (n, col) \<Rightarrow> (n, normalize_column L col))"
      using xn by (simp add: normalize_column_def)
  qed
  ultimately show ?thesis by (simp add: normalize_missing_tokens_def Let_def)
qed

lemma normalize_token_idem: "normalize_token (normalize_token v) = normalize_token v"
  by (cases v) (simp_all add: normalize_token_def replace_na_def strip_lower strip_idem lower_idem)

lemma normalize_strings_cell_idem:
  "normalize_strings_cell (normalize_strings_cell v) = normalize_strings_cell v"
  by (cases v) (simp_all add: normalize_strings_cell_def replace_na_def strip_idem)

lemma normalize_column_idem: "normalize_column L (normalize_column L col) = normalize_column L col"
  by (simp add: normalize_column_def is_object_or_string_def normalize_token_idem)

lemma normalize_strings_column_idem:
  "normalize_strings_column L (normalize_strings_column L col) = normalize_strings_column L col"
  by (simp add: normalize_strings_column_def is_object_or_string_def normalize_strings_cell_idem)

lemma column_names_map_snd:
  "column_names (df\<lparr>columns := map (\<lambda>(n, col). (n, f n col)) (columns df)\<rparr>) = column_names df"
  by (simp add: column_names_def comp_def case_prod_unfold)

lemma map_of_map_snd:
  "map_of (map (\<lambda>(n, col). (n, f n col)) cs) c = map_option (f c) (map_of cs c)"
  by (induction cs) auto

lemma len_astype_string [simp]: "length (astype_string L col) = len col"
  by (cases col) simp_all

section \<open>Claims about missing-token normalisation\<close>

text \<open>
  Claim C9. Missing-token normalisation is idempotent: applying the profiler's normaliser
  twice gives the same table as applying it once, and so does the string normalisation stage
  of the cleaner. Column names are distinct, as in every table the loader produces.
\<close>

theorem normalization_idempotent:
  assumes "distinct (column_names df)"
  shows "normalize_missing_tokens L (normalize_missing_tokens L df) = normalize_missing_tokens L df
       \<and> normalize_strings L (normalize_strings L df) = normalize_strings L df"
proof
  let ?d1 = "df\<lparr>columns := map (\<lambda>(n, col). (n, normalize_column L col)) (columns df)\<rparr>"
  have "distinct (column_names ?d1)" using assms by (simp only: column_names_map_snd)
  then have "normalize_missing_tokens L ?d1 =
      ?d1\<lparr>columns := map (\<lambda>(n, col). (n, normalize_column L col)) (columns ?d1)\<rparr>"
    by (rule normalize_missing_tokens_map)
  then show "normalize_missing_tokens L (normalize_missing_tokens L df) = normalize_missing_tokens L df"
    by (simp add: normalize_missing_tokens_map [OF assms] comp_def case_prod_unfold
          normalize_column_idem)
next
  let ?d1 = "df\<lparr>columns := map (\<lambda>(n, col). (n, normalize_strings_column L col)) (columns df)\<rparr>"
  have "distinct (column_names ?d1)" using assms by (simp only: column_names_map_snd)
  then have "normalize_strings L ?d1 =
      ?d1\<lparr>columns := map (\<lambda>(n, col). (n, normalize_strings_column L col)) (columns ?d1)\<rparr>"
    by (rule normalize_strings_map)
  then show "normalize_strings L (normalize_strings L df) = normalize_strings L df"
    by (simp add: normalize_strings_map [OF assms] comp_def case_prod_unfold
          normalize_strings_column_idem)
qed

theorem normalization_idempotent_witness:
  "distinct (column_names
      \<lparr>index_len = 2,
       columns = [(''name'', ObjCol [Some (Text '' NA ''), Some (Text '' Bob'')]),
                  (''age'', NumCol [Some 41, None])]\<rparr>)
   \<and> normalize_missing_tokens example_pandas (normalize_missing_tokens example_pandas
      \<lparr>index_len = 2,
       columns = [(''name'', ObjCol [Some (Text '' NA ''), Some (Text '' Bob'')]),
                  (''age'', NumCol [Some 41, None])]\<rparr>)
     = \<lparr>index_len = 2,
        columns = [(''name'', StrCol [None, Some ''bob'']), (''age'', NumCol [Some 41, None])]\<rparr>
   \<and> normalize_strings example_pandas (normalize_strings example_pandas
      \<lparr>index_len = 2,
       columns = [(''name'', ObjCol [Some (Text '' NA ''), Some (Text '' Bob'')]),
                  (''age'', NumCol [Some 41, None])]\<rparr>)
     = \<lparr>index_len = 2,
        columns = [(''name'', StrCol [None, Some ''Bob'']), (''age'', NumCol [Some 41, None])]\<rparr>"
proof -
  let ?D = "\<lparr>index_len = 2,
       columns = [(''name'', ObjCol [Some (Text '' NA ''), Some (Text '' Bob'')]),
                  (''age'', NumCol [Some 41, None])]\<rparr>"
  have d: "distinct (column_names ?D)"
    by (simp add: column_names_def)
  have a: "normalize_missing_tokens example_pandas ?D
     = \<lparr>index_len = 2,
        columns = [(''name'', StrCol [None, Some ''bob'']), (''age'', NumCol [Some 41, None])]\<rparr>"
    by code_simp
  have b: "normalize_strings example_pandas ?D
     = \<lparr>index_len = 2,
        columns = [(''name'', StrCol [None, Some ''Bob'']), (''age'', NumCol [Some 41, None])]\<rparr>"
    by code_simp
  from normalization_idempotent [OF d, of example_pandas] a b d show ?thesis
    by simp
qed

text \<open>
  Claim C5. The claim asks the cleaner's normalisation stage to turn \<^verbatim>\<open>"NA"\<close>, \<^verbatim>\<open>"n/a"\<close>,
  \<^verbatim>\<open>"  "\<close>, \<^verbatim>\<open>"?"\<close> and \<^verbatim>\<open>"None"\<close> in any letter case into the missing sentinel, and to keep
  \<^verbatim>\<open>"N"\<close>. On a column holding these cells the stage keeps \<^verbatim>\<open>"n/a"\<close> and \<^verbatim>\<open>"none"\<close>: its
  table of markers is compared without folding the case. The profiler's normaliser, run on
  the same column, does turn all of them into the missing sentinel.
\<close>

theorem cleaner_normalization_keeps_lowercase_markers:
  "columns (normalize_strings L
      \<lparr>index_len = 7,
       columns = [(''c'', ObjCol (map (\<lambda>s. Some (Text s))
                    [''NA'', ''n/a'', ''  '', ''?'', ''None'', ''none'', ''N'']))]\<rparr>)
     = [(''c'', StrCol [None, Some ''n/a'', None, None, None, Some ''none'', Some ''N''])]
   \<and> columns (normalize_missing_tokens L
      \<lparr>index_len = 7,
       columns = [(''c'', ObjCol (map (\<lambda>s. Some (Text s))
                    [''NA'', ''n/a'', ''  '', ''?'', ''None'', ''none'', ''N'']))]\<rparr>)
     = [(''c'', StrCol [None, None, None, None, None, None, Some ''n''])]"
  by code_simp

text \<open>
  Claim C6, as stated: a textual cell whose trimmed value matches no missing marker keeps
  its trimmed text with the letter case preserved. The profiler's normaliser stores the
  lower-cased copy instead: \<^verbatim>\<open>" Bob "\<close> becomes \<^verbatim>\<open>"bob"\<close>, not \<^verbatim>\<open>"Bob"\<close>.
\<close>

theorem normalizer_preserves_case_counterexample:
  "lower (strip '' Bob '') \<notin> set MISSING_MARKERS
   \<and> strip '' Bob '' = ''Bob''
   \<and> columns (normalize_missing_tokens example_pandas
        \<lparr>index_len = 1, columns = [(''c'', ObjCol [Some (Text '' Bob '')])]\<rparr>)
       = [(''c'', StrCol [Some ''bob''])]"
  by code_simp

text \<open>
  Claim C6, amended: for every cell of a textual column that holds ASCII text whose trimmed,
  lower-cased value is not a missing marker, the profiler's normaliser keeps the trimmed
  text in lower case (the lower-cased copy is the value kept, as the function's docstring
  says). The cell is the \<open>i\<close>-th of the column \<open>c\<close>, and \<open>s\<close> is its text.
\<close>

theorem normalizer_keeps_lowered_text:
  assumes "distinct (column_names df)"
      and "get_col df c = Some col"
      and "is_object_or_string col"
      and "i < len col"
      and "astype_string L col ! i = Some s"
      and "ascii_text s"
      and "lower (strip s) \<notin> set MISSING_MARKERS"
  shows "\<exists>ys. get_col (normalize_missing_tokens L df) c = Some (StrCol ys)
              \<and> length ys = len col \<and> ys ! i = Some (lower (strip s))"
proof -
  have "get_col (normalize_missing_tokens L df) c = Some (normalize_column L col)"
    using assms(2)
    by (simp add: normalize_missing_tokens_map [OF assms(1)] get_col_def map_of_map_snd)
  moreover have "normalize_column L col = StrCol (map normalize_token (astype_string L col))"
    using assms(3) by (simp add: normalize_column_def)
  moreover have "map normalize_token (astype_string L col) ! i = Some (lower (strip s))"
    using assms(4,5,7) by (simp add: normalize_token_def replace_na_def)
  ultimately show ?thesis by simp
qed

theorem normalizer_keeps_lowered_text_witness:
  "\<exists>ys. get_col (normalize_missing_tokens example_pandas
            \<lparr>index_len = 2,
             columns = [(''city'', ObjCol [Some (Text ''  New York''), Some (Text ''?'')])]\<rparr>)
            ''city'' = Some (StrCol ys)
        \<and> length ys = 2 \<and> ys ! 0 = Some ''new york''"
proof -
  let ?D = "\<lparr>index_len = 2,
             columns = [(''city'', ObjCol [Some (Text ''  New York''), Some (Text ''?'')])]\<rparr>"
  let ?col = "ObjCol [Some (Text ''  New York''), Some (Text ''?'')]"
  have 1: "distinct (column_names ?D)" by (simp add: column_names_def)
  have 2: "get_col ?D ''city'' = Some ?col" by (simp add: get_col_def)
  have 3: "is_object_or_string ?col" by (simp add: is_object_or_string_def)
  have 4: "0 < len ?col" by simp
  have 5: "astype_string example_pandas ?col ! 0 = Some ''  New York''" by simp
  have 6: "lower (strip ''  New York'') = ''new york''" by code_simp
  have 7: "lower (strip ''  New York'') \<notin> set MISSING_MARKERS" by code_simp
  have 8: "ascii_text ''  New York''" by code_simp
  from normalizer_keeps_lowered_text [OF 1 2 3 4 5 8 7] 6 show ?thesis
    by (simp add: numeral_2_eq_2)
qed

section \<open>Claims about boolean parsing and numeric imputation\<close>

lemma lower_strip_str_bool:
  "lower (strip (str_bool b)) = (if b then ''true'' else ''false'')"
proof (cases b)
  case True
  have "lower (strip ''True'') = ''true''" by code_simp
  with True show ?thesis by (simp add: str_bool_def)
next
  case False
  have "lower (strip ''False'') = ''false''" by code_simp
  with False show ?thesis by (simp add: str_bool_def)
qed

lemma parse_bool_cell_str_bool: "parse_bool_cell (map_option str_bool v) = v"
  by (cases v)
     (simp_all add: parse_bool_cell_def replace_na_def lower_strip_str_bool BOOL_TRUE_def
        BOOL_FALSE_def)

lemma parse_bool_BooleanCol: "parse_bool L (BooleanCol ys) = BooleanCol ys"
  by (simp add: parse_bool_def comp_def parse_bool_cell_str_bool)

lemma parse_bool_cases:
  "\<exists>ys. parse_bool L col = BooleanCol ys \<and> length ys = len col"
  by (cases col) (simp_all add: parse_bool_def)

lemma parse_bool_idem: "parse_bool L (parse_bool L col) = parse_bool L col"
  using parse_bool_cases [of L col] by (auto simp: parse_bool_BooleanCol)

lemma set_col_set_col: "set_col (set_col df c a) c b = set_col df c b"
  by (simp add: set_col_def)

lemma fillna_no_none:
  "None \<notin> set (map (\<lambda>v. case v of None \<Rightarrow> Some d | Some b \<Rightarrow> Some b) xs)"
  by (induction xs) (auto split: option.splits)

lemma count_none_zero_iff: "count_none xs = 0 \<longleftrightarrow> None \<notin> set xs"
  by (induction xs) (auto simp: count_none_def)

lemma sorted_distinct_bools:
  assumes "sorted vs" and "distinct vs"
  shows "vs = [] \<or> vs = [False] \<or> vs = [True] \<or> vs = [False, True]"
proof (cases vs)
  case Nil
  then show ?thesis by simp
next
  case (Cons a as)
  show ?thesis
  proof (cases as)
    case Nil
    with Cons show ?thesis by (cases a) simp_all
  next
    case (Cons b bs)
    with \<open>vs = a # as\<close> assms have ab: "a = False" "b = True"
      by auto
    have "bs = []"
    proof (cases bs)
      case (Cons c cs)
      with \<open>vs = a # as\<close> \<open>as = b # bs\<close> assms ab show ?thesis by (cases c) auto
    qed simp
    with ab Cons \<open>vs = a # as\<close> show ?thesis by simp
  qed
qed

lemma count_list_pos_iff: "0 < count_list xs x \<longleftrightarrow> x \<in> set xs"
  by (induction xs) auto

text \<open>The fill value of \<^verbatim>\<open>_fill_missing_bool_mode\<close>: \<open>True\<close> when the present cells hold
  more \<open>True\<close> than \<open>False\<close>, and \<open>False\<close> otherwise (on a tie and on an empty column
  too).\<close>

lemma first_mode_bool:
  "(case first_mode bs of None \<Rightarrow> False | Some b \<Rightarrow> b)
     \<longleftrightarrow> count_list bs False < count_list bs True"
proof -
  define vs where "vs = sort (remdups bs)"
  have sv: "set vs = set bs" and "sorted vs" and "distinct vs"
    by (simp_all add: vs_def)
  then consider "vs = []" | "vs = [False]" | "vs = [True]" | "vs = [False, True]"
    using sorted_distinct_bools by blast
  then show ?thesis
  proof cases
    case 1
    with sv have "bs = []" by simp
    then show ?thesis by (simp add: first_mode_def)
  next
    case 2
    with sv have "True \<notin> set bs" by auto
    then have "count_list bs True = 0" by (simp add: count_list_0_iff)
    with 2 show ?thesis
      by (simp add: first_mode_def Let_def vs_def [symmetric])
  next
    case 3
    with sv have "False \<notin> set bs" and "True \<in> set bs" by auto
    then have "count_list bs False = 0" and "0 < count_list bs True"
      by (simp_all add: count_list_0_iff count_list_pos_iff)
    with 3 show ?thesis
      by (simp add: first_mode_def Let_def vs_def [symmetric])
  next
    case 4
    then show ?thesis
      by (auto simp add: first_mode_def Let_def vs_def [symmetric] max_def)
  qed
qed

text \<open>
  Claim C10. In \<^verbatim>\<open>_parse_bool\<close>, a cell whose trimmed, lower-cased text lies outside both
  \<open>BOOL_TRUE\<close> and \<open>BOOL_FALSE\<close> becomes the missing sentinel, in a column of ASCII text:
  the parsed column \<open>ys\<close> is the cell-wise parse and its \<open>i\<close>-th cell is missing. When the
  parsed column is the one stored in the frame, the mode-imputation stage that follows
  stores the column in which every missing cell holds the fill value and every other cell
  is kept, and appends one fill_missing entry that gives the fill value and the counts of
  missing cells before (that of \<open>ys\<close>) and after (none). The fill value is \<open>True\<close> exactly
  when more present cells of \<open>ys\<close> are \<open>True\<close> than \<open>False\<close>.
\<close>

theorem parse_bool_unrecognized_becomes_missing:
  assumes "i < len col"
      and "astype_string L col ! i = Some s"
      and "ascii_cells (astype_string L col)"
      and "lower (strip s) \<notin> set BOOL_TRUE"
      and "lower (strip s) \<notin> set BOOL_FALSE"
      and "get_col df c = Some (parse_bool L col)"
  shows "\<exists>ys fill_val.
           ys = map parse_bool_cell (astype_string L col)
         \<and> parse_bool L col = BooleanCol ys
         \<and> ys ! i = None
         \<and> (fill_val \<longleftrightarrow> count_list (dropna ys) False < count_list (dropna ys) True)
         \<and> fill_missing_bool_mode L df c acts =
             (set_col df c
                (BooleanCol (map (\<lambda>v. case v of None \<Rightarrow> Some fill_val | Some b \<Rightarrow> Some b) ys)),
              acts @ [FillMissing c (''mode='' @ str_bool fill_val) (count_none ys) 0])"
proof -
  have nb: "\<not> (\<exists>xs. col = BoolCol xs)"
  proof
    assume "\<exists>xs. col = BoolCol xs"
    then obtain xs where x: "col = BoolCol xs" by blast
    with assms(1,2) have "s = str_bool (xs ! i)" by simp
    with assms(4,5) show False
      by (simp add: lower_strip_str_bool BOOL_TRUE_def BOOL_FALSE_def split: if_splits)
  qed
  define ys where "ys = map parse_bool_cell (astype_string L col)"
  have p: "parse_bool L col = BooleanCol ys"
    using nb by (cases col) (simp_all add: parse_bool_def ys_def)
  have ly: "length ys = len col" by (simp add: ys_def)
  have yi: "ys ! i = None"
    using assms(1,2,4,5) by (simp add: ys_def parse_bool_cell_def replace_na_def)
  then have "None \<in> set ys"
    using assms(1) ly by (metis nth_mem)
  then have cn: "count_none ys \<noteq> 0"
    by (simp add: count_none_zero_iff)
  define fv where "fv = (case first_mode (dropna ys) of None \<Rightarrow> False | Some b \<Rightarrow> b)"
  define zs where "zs = map (\<lambda>v. case v of None \<Rightarrow> Some fv | Some b \<Rightarrow> Some b) ys"
  have "None \<notin> set zs" unfolding zs_def by (rule fillna_no_none)
  then have cz: "count_none zs = 0" by (simp add: count_none_zero_iff)
  have f: "fill_missing_bool_mode L df c acts =
           (set_col df c (BooleanCol zs),
            acts @ [FillMissing c (''mode='' @ str_bool fv) (count_none ys) 0])"
    using assms(6) cn cz unfolding zs_def fv_def
    by (simp add: fill_missing_bool_mode_def p parse_bool_BooleanCol Let_def set_col_set_col)
  have m: "fv \<longleftrightarrow> count_list (dropna ys) False < count_list (dropna ys) True"
    unfolding fv_def by (rule first_mode_bool)
  from p yi m f show ?thesis
    unfolding zs_def ys_def by blast
qed

theorem parse_bool_unrecognized_becomes_missing_witness:
  "parse_bool example_pandas (StrCol [Some ''maybe'', Some ''yes'', Some '' Y ''])
     = BooleanCol [None, Some True, Some True]
   \<and> fill_missing_bool_mode example_pandas
         \<lparr>index_len = 3,
          columns = [(''discount_applied'', BooleanCol [None, Some True, Some True])]\<rparr>
         ''discount_applied'' [] =
       (\<lparr>index_len = 3,
         columns = [(''discount_applied'', BooleanCol [Some True, Some True, Some True])]\<rparr>,
        [FillMissing ''discount_applied'' ''mode=True'' 1 0])
   \<and> clean_dataset example_pandas
        \<lparr>index_len = 3,
         columns = [(''discount_applied'',
                     ObjCol [Some (Text ''maybe''), Some (Text ''yes''), Some (Text '' Y '')])]\<rparr>
      = Inr (\<lparr>index_len = 3,
              columns = [(''discount_applied'', BooleanCol [Some True, Some True, Some True])]\<rparr>,
             [NormalizeStrings, TryParseBool ''discount_applied'',
              FillMissing ''discount_applied'' ''mode=True'' 1 0])"
proof -
  let ?col = "StrCol [Some ''maybe'', Some ''yes'', Some '' Y '']"
  let ?df = "\<lparr>index_len = 3,
          columns = [(''discount_applied'', BooleanCol [None, Some True, Some True])]\<rparr>"
  have 1: "0 < len ?col" by simp
  have 2: "astype_string example_pandas ?col ! 0 = Some ''maybe''" by simp
  have 3: "lower (strip ''maybe'') \<notin> set BOOL_TRUE" by code_simp
  have 4: "lower (strip ''maybe'') \<notin> set BOOL_FALSE" by code_simp
  have 6: "ascii_cells (astype_string example_pandas ?col)" by code_simp
  have pc: "map parse_bool_cell (astype_string example_pandas ?col) = [None, Some True, Some True]"
    by code_simp
  have pb: "parse_bool example_pandas ?col = BooleanCol [None, Some True, Some True]"
    by code_simp
  have 5: "get_col ?df ''discount_applied'' = Some (parse_bool example_pandas ?col)"
    by (simp add: pb get_col_def)
  have dn: "dropna [None, Some True, Some True] = [True, True]"
    by (simp add: dropna_def)
  have cn: "count_none [None, Some True, Some True :: bool option] = 1"
    by (simp add: count_none_def)
  have sc: "set_col ?df ''discount_applied'' (BooleanCol zs)
            = \<lparr>index_len = 3, columns = [(''discount_applied'', BooleanCol zs)]\<rparr>" for zs
    by (simp add: set_col_def)
  have run: "clean_dataset example_pandas
        \<lparr>index_len = 3,
         columns = [(''discount_applied'',
                     ObjCol [Some (Text ''maybe''), Some (Text ''yes''), Some (Text '' Y '')])]\<rparr>
      = Inr (\<lparr>index_len = 3,
              columns = [(''discount_applied'', BooleanCol [Some True, Some True, Some True])]\<rparr>,
             [NormalizeStrings, TryParseBool ''discount_applied'',
              FillMissing ''discount_applied'' ''mode=True'' 1 0])"
    by code_simp
  from parse_bool_unrecognized_becomes_missing [OF 1 2 6 3 4 5, of "[]"]
  obtain ys fv where
      ys: "ys = map parse_bool_cell (astype_string example_pandas ?col)"
    and fv: "fv \<longleftrightarrow> count_list (dropna ys) False < count_list (dropna ys) True"
    and f: "fill_missing_bool_mode example_pandas ?df ''discount_applied'' [] =
             (set_col ?df ''discount_applied''
                (BooleanCol (map (\<lambda>v. case v of None \<Rightarrow> Some fv | Some b \<Rightarrow> Some b) ys)),
              [] @ [FillMissing ''discount_applied'' (''mode='' @ str_bool fv) (count_none ys) 0])"
    by blast
  have y: "ys = [None, Some True, Some True]" by (simp only: ys pc)
  have t: "fv" by (simp add: fv y dn)
  have "fill_missing_bool_mode example_pandas ?df ''discount_applied'' [] =
       (\<lparr>index_len = 3,
         columns = [(''discount_applied'', BooleanCol [Some True, Some True, Some True])]\<rparr>,
        [FillMissing ''discount_applied'' ''mode=True'' 1 0])"
    unfolding f y by (simp add: t cn sc str_bool_def)
  with pb run show ?thesis by simp
qed

text \<open>
  Claim C8, as stated: with a strategy name outside median, mean and mode the numeric
  imputation raises, however many cells are missing. On a column without a missing cell the
  call returns before the strategy is looked at.
\<close>

theorem fill_missing_numeric_always_raises_counterexample:
  "''bogus'' \<noteq> ''median'' \<and> ''bogus'' \<noteq> ''mean'' \<and> ''bogus'' \<noteq> ''mode''
   \<and> fill_missing_numeric example_pandas
        \<lparr>index_len = 2, columns = [(''x'', NumCol [Some 1, Some 2])]\<rparr> ''x'' ''bogus'' []
      = Inr (\<lparr>index_len = 2, columns = [(''x'', NumCol [Some 1, Some 2])]\<rparr>, [])"
  by code_simp

text \<open>
  Claim C8, amended: with a strategy name outside median, mean and mode, the numeric
  imputation raises \<open>ValueError\<close> exactly when the column is in the table and has, after
  numeric coercion, at least one missing cell; for an absent column and for a column with
  no missing cell it returns without an error and logs nothing.
\<close>

theorem fill_missing_numeric_unknown_strategy:
  assumes "strategy \<noteq> ''median''" and "strategy \<noteq> ''mean''" and "strategy \<noteq> ''mode''"
  shows "fill_missing_numeric L df col strategy actions =
           (case get_col df col of
              None \<Rightarrow> Inr (df, actions)
            | Some s \<Rightarrow>
                if isna_sum (to_numeric L s) = 0
                then Inr (set_col df col (to_numeric L s), actions)
                else Inl (ValueError (''Unknown numeric fill strategy: '' @ strategy)))"
  using assms by (simp add: fill_missing_numeric_def Let_def split: option.splits)

theorem fill_missing_numeric_unknown_strategy_witness:
  "''bogus'' \<noteq> ''median'' \<and> ''bogus'' \<noteq> ''mean'' \<and> ''bogus'' \<noteq> ''mode''
   \<and> fill_missing_numeric example_pandas
        \<lparr>index_len = 2, columns = [(''x'', NumCol [Some 1, None])]\<rparr> ''x'' ''bogus'' []
      = Inl (ValueError ''Unknown numeric fill strategy: bogus'')
   \<and> fill_missing_numeric example_pandas
        \<lparr>index_len = 2, columns = [(''x'', NumCol [Some 1, None])]\<rparr> ''y'' ''bogus'' []
      = Inr (\<lparr>index_len = 2, columns = [(''x'', NumCol [Some 1, None])]\<rparr>, [])"
proof -
  have 1: "''bogus'' \<noteq> ''median''" and 2: "''bogus'' \<noteq> ''mean''" and 3: "''bogus'' \<noteq> ''mode''"
    by simp_all
  show ?thesis
    using fill_missing_numeric_unknown_strategy [OF 1 2 3, of example_pandas
        "\<lparr>index_len = 2, columns = [(''x'', NumCol [Some 1, None])]\<rparr>" "''x''" "[]"]
      fill_missing_numeric_unknown_strategy [OF 1 2 3, of example_pandas
        "\<lparr>index_len = 2, columns = [(''x'', NumCol [Some 1, None])]\<rparr>" "''y''" "[]"]
    by (simp add: get_col_def count_none_def)
qed

section \<open>Claims about type inference\<close>

lemma len_to_numeric [simp]: "len (to_numeric L s) = len s"
  by (cases s) simp_all

lemma len_clean_numeric_series [simp]: "len (clean_numeric_series L s) = len s"
  by (simp add: clean_numeric_series_def Let_def)

lemma len_cells [simp]: "length (cells s) = len s"
  by (cases s) simp_all

lemma length_dropna_le: "length (dropna xs) \<le> length xs"
  by (induction xs) (auto simp: dropna_def split: option.splits)

lemma nunique_le_len: "nunique s \<le> len s"
proof -
  have "length (remdups (map py_key (dropna (cells s)))) \<le> length (map py_key (dropna (cells s)))"
    by (rule length_remdups_leq)
  also have "\<dots> \<le> length (cells s)" using length_dropna_le [of "cells s"] by simp
  finally show ?thesis by (simp add: nunique_def)
qed

text \<open>
  Claim C2, as stated: a column not typed datetime, boolean or numeric is classified numeric
  exactly when more than 0.8 of its non-missing cells convert. The column \<^verbatim>\<open>["1", NA]\<close> has
  one non-missing cell, which converts (a fraction of 1), and is classified categorical.
\<close>

theorem numeric_fraction_of_present_cells_counterexample:
  "\<not> is_datetime64_any_dtype (ObjCol [Some (Text ''1''), None])
   \<and> \<not> is_bool_dtype (ObjCol [Some (Text ''1''), None])
   \<and> \<not> is_numeric_dtype (ObjCol [Some (Text ''1''), None])
   \<and> len (ObjCol [Some (Text ''1''), None]) - isna_sum (ObjCol [Some (Text ''1''), None]) = 1
   \<and> clean_numeric_series example_pandas (ObjCol [Some (Text ''1''), None]) = NumCol [Some 1, None]
   \<and> infer_column_type example_pandas (ObjCol [Some (Text ''1''), None]) = ''categorical''"
  by code_simp

text \<open>
  Claim C2, amended: a column not typed datetime, boolean or numeric is classified numeric
  exactly when the cells that the numeric coercer converts are more than 0.8 of all the
  cells of the column, the missing ones included (the denominator is the row count), which
  a column without rows never satisfies.
\<close>

theorem numeric_iff_converted_fraction_of_all_cells:
  assumes "\<not> is_datetime64_any_dtype series"
      and "\<not> is_bool_dtype series"
      and "\<not> is_numeric_dtype series"
  shows "infer_column_type L series = ''numeric'' \<longleftrightarrow>
           len series \<noteq> 0 \<and>
           (8 / 10 :: rat) < of_nat (len series - isna_sum (clean_numeric_series L series))
                             / of_nat (len series)"
proof -
  define m :: rat where
    "m = of_nat (len series - isna_sum (clean_numeric_series L series)) / of_nat (len series)"
  have nm: "notna_mean (clean_numeric_series L series) =
              (if len series = 0 then None else Some m)"
    unfolding m_def by (simp only: notna_mean_def len_clean_numeric_series)
  have "infer_column_type L series = ''numeric'' \<longleftrightarrow> len series \<noteq> 0 \<and> 8 / 10 < m"
    using assms by (simp add: infer_column_type_def nm Let_def)
  then show ?thesis unfolding m_def .
qed

theorem numeric_iff_converted_fraction_of_all_cells_witness:
  "infer_column_type example_pandas
     (ObjCol [Some (Text ''1''), Some (Text ''$2''), Some (Text ''3 [a]''), Some (Text ''4''),
              Some (Text ''5''), Some (Text ''six'')]) = ''numeric''
   \<and> infer_column_type example_pandas
     (ObjCol [Some (Text ''1''), Some (Text ''2''), Some (Text ''3''), Some (Text ''4''),
              None]) \<noteq> ''numeric''"
proof -
  let ?a = "ObjCol [Some (Text ''1''), Some (Text ''$2''), Some (Text ''3 [a]''), Some (Text ''4''),
              Some (Text ''5''), Some (Text ''six'')]"
  let ?b = "ObjCol [Some (Text ''1''), Some (Text ''2''), Some (Text ''3''), Some (Text ''4''),
              None]"
  have dt: "\<not> is_datetime64_any_dtype ?a" "\<not> is_bool_dtype ?a" "\<not> is_numeric_dtype ?a"
           "\<not> is_datetime64_any_dtype ?b" "\<not> is_bool_dtype ?b" "\<not> is_numeric_dtype ?b"
    by (simp_all add: is_datetime64_any_dtype_def is_bool_dtype_def is_numeric_dtype_def)
  have ca: "clean_numeric_series example_pandas ?a
              = NumCol [Some 1, Some 2, Some 3, Some 4, Some 5, None]"
    by code_simp
  have cb: "clean_numeric_series example_pandas ?b
              = NumCol [Some 1, Some 2, Some 3, Some 4, None]"
    by code_simp
  show ?thesis
    using numeric_iff_converted_fraction_of_all_cells [OF dt(1-3), of example_pandas]
          numeric_iff_converted_fraction_of_all_cells [OF dt(4-6), of example_pandas]
    by (simp add: ca cb count_none_def)
qed

text \<open>
  Claim C3, as stated: a column with exactly two distinct non-missing values is classified
  binary even when it is numeric-typed or its values coerce to numbers. A numeric column
  \<^verbatim>\<open>[0, 1]\<close> and a text column \<^verbatim>\<open>["0", "1"]\<close> are both classified numeric: the checks of the
  dtype and of the coercible fraction come before the count of distinct values.
\<close>

theorem binary_precedence_counterexample:
  "nunique (NumCol [Some 0, Some 1]) = 2
   \<and> infer_column_type example_pandas (NumCol [Some 0, Some 1]) = ''numeric''
   \<and> nunique (ObjCol [Some (Text ''0''), Some (Text ''1'')]) = 2
   \<and> infer_column_type example_pandas (ObjCol [Some (Text ''0''), Some (Text ''1'')]) = ''numeric''"
  by code_simp

text \<open>
  Claim C3, amended: a column with exactly two distinct non-missing values is classified
  by the first of these that applies, whatever its cardinality ratio: datetime when it is
  typed datetime; binary when it is typed boolean; numeric when it is typed numeric;
  numeric when more than 0.8 of its cells coerce to numbers; binary in every other case.
  So a two-valued column that is numeric-typed or numerically coercible is numeric, a
  datetime-typed one is datetime, and all the others are binary.
\<close>

theorem two_values_binary:
  assumes "nunique series = 2"
  shows "infer_column_type L series =
           (if is_datetime64_any_dtype series then ''datetime''
            else if is_bool_dtype series then ''binary''
            else if is_numeric_dtype series then ''numeric''
            else if (8 / 10 :: rat) < of_nat (len series - isna_sum (clean_numeric_series L series))
                                      / of_nat (len series)
            then ''numeric''
            else ''binary'')"
proof -
  define m :: rat where
    "m = of_nat (len series - isna_sum (clean_numeric_series L series)) / of_nat (len series)"
  have nm: "notna_mean (clean_numeric_series L series) =
              (if len series = 0 then None else Some m)"
    unfolding m_def by (simp only: notna_mean_def len_clean_numeric_series)
  have n0: "len series \<noteq> 0"
    using nunique_le_len [of series] assms by simp
  have "infer_column_type L series =
           (if is_datetime64_any_dtype series then ''datetime''
            else if is_bool_dtype series then ''binary''
            else if is_numeric_dtype series then ''numeric''
            else if 8 / 10 < m then ''numeric''
            else ''binary'')"
    using assms n0 by (simp add: infer_column_type_def nm Let_def)
  then show ?thesis unfolding m_def .
qed

theorem two_values_binary_witness:
  "nunique (ObjCol [Some (Text ''yes''), Some (Text ''no''), None, Some (Text ''yes'')]) = 2
   \<and> infer_column_type example_pandas
       (ObjCol [Some (Text ''yes''), Some (Text ''no''), None, Some (Text ''yes'')]) = ''binary''
   \<and> nunique (BooleanCol [Some True, None, Some False]) = 2
   \<and> infer_column_type example_pandas (BooleanCol [Some True, None, Some False]) = ''binary''
   \<and> nunique (NumCol [Some 3, Some 7, Some 3]) = 2
   \<and> infer_column_type example_pandas (NumCol [Some 3, Some 7, Some 3]) = ''numeric''
   \<and> nunique (ObjCol [Some (Text ''3''), Some (Text ''7'')]) = 2
   \<and> infer_column_type example_pandas (ObjCol [Some (Text ''3''), Some (Text ''7'')]) = ''numeric''
   \<and> nunique (DateCol [Some 1, Some 2]) = 2
   \<and> infer_column_type example_pandas (DateCol [Some 1, Some 2]) = ''datetime''"
proof -
  let ?a = "ObjCol [Some (Text ''yes''), Some (Text ''no''), None, Some (Text ''yes'')]"
  let ?b = "BooleanCol [Some True, None, Some False]"
  let ?c = "NumCol [Some 3, Some 7, Some 3]"
  let ?d = "ObjCol [Some (Text ''3''), Some (Text ''7'')]"
  let ?e = "DateCol [Some 1, Some 2]"
  have n: "nunique ?a = 2" "nunique ?b = 2" "nunique ?c = 2" "nunique ?d = 2" "nunique ?e = 2"
    by code_simp+
  have ca: "clean_numeric_series example_pandas ?a = NumCol [None, None, None, None]"
    by code_simp
  have cd: "clean_numeric_series example_pandas ?d = NumCol [Some 3, Some 7]"
    by code_simp
  have a: "infer_column_type example_pandas ?a = ''binary''"
    using two_values_binary [OF n(1), of example_pandas]
    by (simp add: ca is_datetime64_any_dtype_def is_bool_dtype_def is_numeric_dtype_def
          count_none_def)
  have b: "infer_column_type example_pandas ?b = ''binary''"
    using two_values_binary [OF n(2), of example_pandas]
    by (simp add: is_datetime64_any_dtype_def is_bool_dtype_def)
  have c: "infer_column_type example_pandas ?c = ''numeric''"
    using two_values_binary [OF n(3), of example_pandas]
    by (simp add: is_datetime64_any_dtype_def is_bool_dtype_def is_numeric_dtype_def)
  have d: "infer_column_type example_pandas ?d = ''numeric''"
    using two_values_binary [OF n(4), of example_pandas]
    by (simp add: cd is_datetime64_any_dtype_def is_bool_dtype_def is_numeric_dtype_def
          count_none_def)
  have e: "infer_column_type example_pandas ?e = ''datetime''"
    using two_values_binary [OF n(5), of example_pandas]
    by (simp add: is_datetime64_any_dtype_def)
  from n a b c d e show ?thesis by simp
qed

section \<open>Claims about the health score\<close>

lemma round_half_even_bounds:
  assumes "0 \<le> x" and "x \<le> of_int N"
  shows "0 \<le> round_half_even x \<and> round_half_even x \<le> N"
proof -
  define f where "f = \<lfloor>x\<rfloor>"
  have f0: "0 \<le> f" using assms(1) by (simp add: f_def)
  have fN: "f \<le> N" using assms(2) by (simp add: f_def floor_le_iff)
  have up: "f + 1 \<le> N" if "x - of_int f \<noteq> 0"
  proof -
    have "of_int f \<le> x" by (simp add: f_def)
    with that have "of_int f < x" by simp
    with assms(2) have "(of_int f :: rat) < of_int N" by simp
    then show ?thesis by simp
  qed
  show ?thesis
    using f0 fN up unfolding round_half_even_def Let_def f_def [symmetric]
    by (auto split: if_splits)
qed

lemma round_half_even_near: "\<bar>of_int (round_half_even x) - x\<bar> \<le> 1 / 2"
proof -
  define f where "f = \<lfloor>x\<rfloor>"
  have "of_int f \<le> x \<and> x < of_int (f + 1)"
    unfolding f_def by (rule floor_correct)
  then have lo: "of_int f \<le> x" and hi: "x < of_int f + 1"
    by simp_all
  show ?thesis
    using lo hi unfolding round_half_even_def Let_def f_def [symmetric]
    by (auto simp add: abs_if)
qed

lemma rounds_to_hundredths_exact: "rounds_to_hundredths round2_exact"
proof -
  have "\<bar>round2_exact x - x\<bar> \<le> 1 / 200" for x
  proof -
    have "\<bar>of_int (round_half_even (x * 100)) - x * 100\<bar> \<le> 1 / 2"
      by (rule round_half_even_near)
    moreover have "round2_exact x - x = (of_int (round_half_even (x * 100)) - x * 100) / 100"
      by (simp add: round2_exact_def diff_divide_distrib)
    then have "\<bar>round2_exact x - x\<bar> = \<bar>of_int (round_half_even (x * 100)) - x * 100\<bar> / 100"
      by (simp only: abs_divide)
    ultimately show ?thesis by simp
  qed
  then show ?thesis
    unfolding rounds_to_hundredths_def by (auto simp: round2_exact_def)
qed

lemma round2_example_pandas: "round2 example_pandas = round2_exact"
  by (simp add: example_pandas_def)


lemma rounds_to_hundredths_bounds:
  assumes "rounds_to_hundredths r" and "0 \<le> y" and "y \<le> 100"
  shows "0 \<le> r y \<and> r y \<le> 100"
proof -
  from assms(1) obtain j :: int where j: "r y = of_int j / 100"
    unfolding rounds_to_hundredths_def by blast
  from assms(1) have n: "\<bar>r y - y\<bar> \<le> 1 / 200"
    unfolding rounds_to_hundredths_def by blast
  have "(of_int j :: rat) / 100 \<ge> - (1 / 200)"
    using n assms(2) unfolding j by (simp add: abs_if split: if_splits)
  then have "(of_int (- 1) :: rat) < of_int j" by simp
  then have "- 1 < j" by (simp only: of_int_less_iff)
  then have j0: "0 \<le> j" by simp
  have "(of_int j :: rat) / 100 \<le> 100 + 1 / 200"
    using n assms(3) unfolding j by (simp add: abs_if split: if_splits)
  then have "(of_int j :: rat) < of_int 10001" by simp
  then have "j < 10001" by (simp only: of_int_less_iff)
  then have j1: "j \<le> 10000" by simp
  from j0 have "(0 :: rat) \<le> of_int j" by simp
  moreover from j1 have "(of_int j :: rat) \<le> of_int 10000" by (simp only: of_int_le_iff)
  ultimately show ?thesis unfolding j by simp
qed

lemma normalize_missing_tokens_shape:
  "index_len (normalize_missing_tokens L df) = index_len df
   \<and> column_names (normalize_missing_tokens L df) = column_names df"
proof -
  let ?step = "\<lambda>c d. case get_col d c of
                         None \<Rightarrow> d
                       | Some col \<Rightarrow> set_col d c (StrCol (map normalize_token (astype_string L col)))"
  have "index_len (fold ?step ns d) = index_len d
        \<and> column_names (fold ?step ns d) = column_names d" for ns d
  proof (induction ns arbitrary: d)
    case Nil
    show ?case by simp
  next
    case (Cons n ns)
    show ?case
    proof (cases "get_col d n")
      case None
      then show ?thesis using Cons by simp
    next
      case (Some col)
      have "index_len (set_col d n v) = index_len d" for v by (simp add: set_col_def)
      moreover have "column_names (set_col d n v) = column_names d" for v
        using Some by (rule column_names_set_col)
      ultimately show ?thesis using Some Cons by simp
    qed
  qed
  then show ?thesis by (simp add: normalize_missing_tokens_def Let_def)
qed

text \<open>
  Claim C1, as stated: on a table with a row and a column the health score equals
  100 minus (missing percent times 0.40 + duplicate percent times 0.20 +
  min(outlier percent times 0.30, 30)), clamped at 0. On a table of one row and three text
  columns with one missing cell, the score is 86.67, while the formula gives 86.668 on the
  percents that the profile reports and 86.66... (260/3) on the exact ratio 1/3: the
  code rounds the score to two decimals.
\<close>

theorem health_score_formula_counterexample:
  "data_health_score (profile_dataset example_pandas
      \<lparr>index_len = 1,
       columns = [(''a'', ObjCol [Some (Text ''x'')]), (''b'', ObjCol [Some (Text ''y'')]),
                  (''c'', ObjCol [Some (Text ''NA'')])]\<rparr>) = Some (8667 / 100)
   \<and> missing_percent (profile_dataset example_pandas
      \<lparr>index_len = 1,
       columns = [(''a'', ObjCol [Some (Text ''x'')]), (''b'', ObjCol [Some (Text ''y'')]),
                  (''c'', ObjCol [Some (Text ''NA'')])]\<rparr>) = 3333 / 100
   \<and> duplicate_percent (profile_dataset example_pandas
      \<lparr>index_len = 1,
       columns = [(''a'', ObjCol [Some (Text ''x'')]), (''b'', ObjCol [Some (Text ''y'')]),
                  (''c'', ObjCol [Some (Text ''NA'')])]\<rparr>) = 0
   \<and> outlier_percent (profile_dataset example_pandas
      \<lparr>index_len = 1,
       columns = [(''a'', ObjCol [Some (Text ''x'')]), (''b'', ObjCol [Some (Text ''y'')]),
                  (''c'', ObjCol [Some (Text ''NA'')])]\<rparr>) = 0
   \<and> max 0 (100 - ((3333 / 100) * (40 / 100) + 0 * (20 / 100) + min (0 * (30 / 100)) 30))
       = (21667 / 250 :: rat)
   \<and> max 0 (100 - ((100 / 3) * (40 / 100) + 0 * (20 / 100) + min (0 * (30 / 100)) 30))
       = (260 / 3 :: rat)
   \<and> (8667 / 100 :: rat) \<noteq> 21667 / 250 \<and> (8667 / 100 :: rat) \<noteq> 260 / 3"
  by code_simp

text \<open>
  Claim C1, amended: on a table with at least one row and one column the health score is
  the value \<open>F\<close> = 100 minus (M times 0.40 + D times 0.20 + min(O times 0.30, 30)), clamped
  below at 0, rounded to two decimals, where M, D and O are the exact missing, duplicate and
  outlier percents: the score has two decimals, differs from \<open>F\<close> by 0.005 at most and lies
  between 0 and 100. The profile reports each of the three percents rounded to two decimals
  in the same way. On a table with no row or no column the health score is undefined and the
  three percents are 0. The rounding is the library's; the statement holds for every
  rounding to two decimals, whichever neighbour it takes at a tie.
\<close>

theorem health_score_formula:
  assumes "rounds_to_hundredths (round2 L)"
  shows
  "(let d = normalize_missing_tokens L df;
        P = profile_dataset L df;
        total_cells = index_len d * length (columns d);
        m_pct = of_nat (sum_list (map (\<lambda>(c, col). isna_sum col) (columns d))) / of_nat total_cells * 100;
        d_pct = of_nat (duplicated_sum d) / of_nat (index_len d) * 100;
        o_pct = of_nat (sum_list (map (\<lambda>(c, p). case outliers p of None \<Rightarrow> 0 | Some k \<Rightarrow> k)
                                  (columns_profile P))) / of_nat total_cells * 100;
        F = max 0 (100 - (m_pct * (40 / 100) + d_pct * (20 / 100) + min (o_pct * (30 / 100)) 30))
    in (index_len df \<noteq> 0 \<and> columns df \<noteq> [] \<longrightarrow>
          (\<exists>h. data_health_score P = Some h \<and> h = round2 L F
               \<and> (\<exists>k :: int. h = of_int k / 100) \<and> \<bar>h - F\<bar> \<le> 1 / 200
               \<and> 0 \<le> h \<and> h \<le> 100)
          \<and> missing_percent P = round2 L m_pct \<and> \<bar>missing_percent P - m_pct\<bar> \<le> 1 / 200
          \<and> duplicate_percent P = round2 L d_pct \<and> \<bar>duplicate_percent P - d_pct\<bar> \<le> 1 / 200
          \<and> outlier_percent P = round2 L o_pct \<and> \<bar>outlier_percent P - o_pct\<bar> \<le> 1 / 200)
     \<and> (index_len df = 0 \<or> columns df = [] \<longrightarrow>
          data_health_score P = None
          \<and> missing_percent P = 0 \<and> duplicate_percent P = 0 \<and> outlier_percent P = 0))"
proof -
  have two: "\<exists>k :: int. round2 L x = of_int k / 100" for x
    using assms unfolding rounds_to_hundredths_def by blast
  have near: "\<bar>round2 L x - x\<bar> \<le> 1 / 200" for x
    using assms unfolding rounds_to_hundredths_def by blast
  define d where "d = normalize_missing_tokens L df"
  have il: "index_len d = index_len df"
    unfolding d_def using normalize_missing_tokens_shape by blast
  have "column_names d = column_names df"
    unfolding d_def using normalize_missing_tokens_shape by blast
  then have "length (column_names d) = length (column_names df)" by simp
  then have lc: "length (columns d) = length (columns df)"
    by (simp add: column_names_def)
  then have ce: "columns d = [] \<longleftrightarrow> columns df = []" by (metis length_0_conv)
  define mc :: rat where "mc = of_nat (sum_list (map (\<lambda>(c, col). isna_sum col) (columns d)))"
  define dr :: rat where "dr = of_nat (duplicated_sum d)"
  define ou :: rat where
    "ou = of_nat (sum_list (map (\<lambda>(c, p). case outliers p of None \<Rightarrow> 0 | Some k \<Rightarrow> k)
                     (map (\<lambda>(c, col). (c, profile_column L (index_len d) col)) (columns d))))"
  define tc :: rat where "tc = of_nat (index_len d * length (columns d))"
  define nr :: rat where "nr = of_nat (index_len d)"
  have nonneg: "0 \<le> mc" "0 \<le> dr" "0 \<le> ou" "0 \<le> tc" "0 \<le> nr"
    by (simp_all add: mc_def dr_def ou_def tc_def nr_def)
  define tp where "tp = mc / tc * 40 + dr / nr * 20 + min (ou / tc * 30) 30"
  have tp0: "0 \<le> tp"
    unfolding tp_def using nonneg by (intro add_nonneg_nonneg) (simp_all add: min_def)
  have rng: "0 \<le> round2 L (max 0 (100 - tp)) \<and> round2 L (max 0 (100 - tp)) \<le> 100"
    using assms tp0 by (intro rounds_to_hundredths_bounds) simp_all
  have eq: "mc / tc * 100 * (40 / 100) + dr / nr * 100 * (20 / 100) + min (ou / tc * 100 * (30 / 100)) 30
            = tp"
    by (simp add: tp_def mult.commute)
  have cp: "columns_profile (profile_dataset L df)
              = map (\<lambda>(c, col). (c, profile_column L (index_len d) col)) (columns d)"
    by (simp add: profile_dataset_def Let_def d_def split: prod.splits)
  have nz: "index_len d * length (columns d) = 0 \<longleftrightarrow> index_len df = 0 \<or> columns df = []"
    using il ce by simp
  have pos: "data_health_score (profile_dataset L df) = Some (round2 L (max 0 (100 - tp)))
             \<and> missing_percent (profile_dataset L df) = round2 L (mc / tc * 100)
             \<and> duplicate_percent (profile_dataset L df) = round2 L (dr / nr * 100)
             \<and> outlier_percent (profile_dataset L df) = round2 L (ou / tc * 100)"
    if "index_len df \<noteq> 0" "columns df \<noteq> []"
    using that il ce
    by (simp add: profile_dataset_def Let_def d_def [symmetric] tp_def mc_def dr_def ou_def
          tc_def nr_def del: of_nat_mult)
  have neg: "data_health_score (profile_dataset L df) = None
             \<and> missing_percent (profile_dataset L df) = 0
             \<and> duplicate_percent (profile_dataset L df) = 0
             \<and> outlier_percent (profile_dataset L df) = 0"
    if "index_len df = 0 \<or> columns df = []"
    using that il ce
    by (auto simp add: profile_dataset_def Let_def d_def [symmetric])
  show ?thesis
    unfolding Let_def d_def [symmetric] cp
    unfolding mc_def [symmetric] dr_def [symmetric] ou_def [symmetric] tc_def [symmetric]
      nr_def [symmetric] eq
    using pos neg rng two near by auto
qed

theorem health_score_formula_witness:
  "index_len \<lparr>index_len = 5,
              columns = [(''a'', NumCol [Some 1, Some 2, Some 3, Some 4, Some 100]),
                         (''b'', ObjCol [Some (Text ''x''), Some (Text ''n/a''), Some (Text ''x''),
                                         Some (Text ''y''), Some (Text ''z'')])]\<rparr> \<noteq> 0
   \<and> columns \<lparr>index_len = 5,
              columns = [(''a'', NumCol [Some 1, Some 2, Some 3, Some 4, Some 100]),
                         (''b'', ObjCol [Some (Text ''x''), Some (Text ''n/a''), Some (Text ''x''),
                                         Some (Text ''y''), Some (Text ''z'')])]\<rparr> \<noteq> []
   \<and> (\<exists>h. data_health_score (profile_dataset example_pandas
              \<lparr>index_len = 5,
               columns = [(''a'', NumCol [Some 1, Some 2, Some 3, Some 4, Some 100]),
                          (''b'', ObjCol [Some (Text ''x''), Some (Text ''n/a''), Some (Text ''x''),
                                          Some (Text ''y''), Some (Text ''z'')])]\<rparr>) = Some h
           \<and> h = 93 \<and> 0 \<le> h \<and> h \<le> 100)
   \<and> index_len \<lparr>index_len = 0, columns = [(''a'', NumCol [])]\<rparr> = 0
   \<and> data_health_score (profile_dataset example_pandas
        \<lparr>index_len = 0, columns = [(''a'', NumCol [])]\<rparr>) = None
   \<and> missing_percent (profile_dataset example_pandas
        \<lparr>index_len = 0, columns = [(''a'', NumCol [])]\<rparr>) = 0
   \<and> duplicate_percent (profile_dataset example_pandas
        \<lparr>index_len = 0, columns = [(''a'', NumCol [])]\<rparr>) = 0
   \<and> outlier_percent (profile_dataset example_pandas
        \<lparr>index_len = 0, columns = [(''a'', NumCol [])]\<rparr>) = 0"
proof -
  let ?D = "\<lparr>index_len = 5,
              columns = [(''a'', NumCol [Some 1, Some 2, Some 3, Some 4, Some 100]),
                         (''b'', ObjCol [Some (Text ''x''), Some (Text ''n/a''), Some (Text ''x''),
                                         Some (Text ''y''), Some (Text ''z'')])]\<rparr>"
  let ?E = "\<lparr>index_len = 0, columns = [(''a'', NumCol [])]\<rparr>"
  have a: "index_len ?D \<noteq> 0 \<and> columns ?D \<noteq> []" by simp
  have e: "index_len ?E = 0 \<or> columns ?E = []" by simp
  have v: "data_health_score (profile_dataset example_pandas ?D) = Some 93" by code_simp
  have r: "rounds_to_hundredths (round2 example_pandas)"
    by (simp only: round2_example_pandas rounds_to_hundredths_exact)
  from health_score_formula [OF r, of ?D, unfolded Let_def] a
  have "\<exists>h. data_health_score (profile_dataset example_pandas ?D) = Some h \<and> 0 \<le> h \<and> h \<le> 100"
    by blast
  with v have 1: "\<exists>h. data_health_score (profile_dataset example_pandas ?D) = Some h
                      \<and> h = 93 \<and> 0 \<le> h \<and> h \<le> 100"
    by auto
  from health_score_formula [OF r, of ?E, unfolded Let_def] e
  have 2: "data_health_score (profile_dataset example_pandas ?E) = None
           \<and> missing_percent (profile_dataset example_pandas ?E) = 0
           \<and> duplicate_percent (profile_dataset example_pandas ?E) = 0
           \<and> outlier_percent (profile_dataset example_pandas ?E) = 0"
    by blast
  from a 1 2 show ?thesis by simp
qed

section \<open>Claims about cross-field reconciliation\<close>










section \<open>The loops of clean\_dataset as maps over the columns\<close>



lemma column_names_stage_map [simp]:
  "column_names (fst (stage_map K st)) = column_names (fst st)"
  by (simp add: stage_map_def column_names_def comp_def case_prod_unfold)





lemma column_names_map_cols [simp]: "column_names (map_cols f df) = column_names df"
  by (simp add: map_cols_def column_names_def comp_def case_prod_unfold)

lemma get_col_map_cols: "get_col (map_cols f df) n = map_option (f n) (get_col df n)"
  by (simp add: map_cols_def get_col_def map_of_map_snd)







section \<open>What the cleaner leaves in a column\<close>

























section \<open>Claims about running the cleaner twice\<close>




end
